theory Spec2Isabelle
  imports Main "HOL-Library.Monad_Syntax"
begin

section \<open>Python string primitives used by \<open>salt/modules/restartcheck.py\<close>\<close>

text \<open>
  Python text is modelled as \<^typ>\<open>string\<close>, a list of 8-bit characters. Every literal
  the module compares against is ASCII, so the prefix, suffix and substring tests below
  read the same on code points and on bytes.
\<close>

definition startswith :: "string \<Rightarrow> string \<Rightarrow> bool" where
  "startswith s p = (take (length p) s = p)"

definition endswith :: "string \<Rightarrow> string \<Rightarrow> bool" where
  "endswith s p = (length p \<le> length s \<and> drop (length s - length p) s = p)"

definition is_digit :: "char \<Rightarrow> bool" where
  \<comment> \<open>the class \<open>[0-9]\<close>; among 8-bit characters it is also what \<open>\d\<close> matches\<close>
  "is_digit c = (c \<in> set ''0123456789'')"

definition newline :: char where
  "newline = CHR 0x0A"

section \<open>\<open>_valid_deleted_file\<close>\<close>

text \<open>
  \<open>re.compile(r"\(path inode=[0-9]+\)$").search(path)\<close>: somewhere in the path the text
  \<open>(path inode=\<close>, one or more digits and \<open>)\<close> occur, ending at a place where \<open>$\<close>
  matches. Without the MULTILINE flag \<open>$\<close> matches at the very end of the string and
  just before a newline that is the last character. The test is run on the reversed
  string: the closing parenthesis, the maximal run of digits (the character before the
  digits must be \<open>=\<close>, so a shorter run cannot match), then the reversed literal.
\<close>

definition inode_tail :: "string \<Rightarrow> bool" where
  "inode_tail r =
     (case r of
        [] \<Rightarrow> False
      | c # r1 \<Rightarrow>
          c = CHR '')'' \<and> takeWhile is_digit r1 \<noteq> [] \<and>
          startswith (dropWhile is_digit r1) (rev ''(path inode=''))"

definition inode_search :: "string \<Rightarrow> bool" where
  "inode_search path =
     (inode_tail (rev path) \<or>
      (case rev path of [] \<Rightarrow> False | c # r \<Rightarrow> c = newline \<and> inode_tail r))"

text \<open>
  The body of \<open>_valid_deleted_file\<close>, statement by statement: \<open>ret\<close> starts as
  \<open>False\<close>, two tests set it, and every later test clears it.
\<close>

definition valid_deleted_file :: "string \<Rightarrow> bool" where
  "valid_deleted_file path =
     (let ret = False;
          ret = (if endswith path '' (deleted)'' then True else ret);
          ret = (if inode_search path then True else ret);
          ret = (if startswith path ''/var/log/'' \<or> startswith path ''/var/local/log/''
                 then False else ret);
          ret = (if startswith path ''/var/run/'' \<or> startswith path ''/var/local/run/''
                 then False else ret);
          ret = (if startswith path ''/tmp/'' then False else ret);
          ret = (if startswith path ''/dev/shm/'' then False else ret);
          ret = (if startswith path ''/run/'' then False else ret);
          ret = (if startswith path ''/drm'' then False else ret);
          ret = (if startswith path ''/var/tmp/'' \<or> startswith path ''/var/local/tmp/''
                 then False else ret);
          ret = (if startswith path ''/dev/zero'' then False else ret);
          ret = (if startswith path ''/dev/pts/'' then False else ret);
          ret = (if startswith path ''/usr/lib/locale/'' then False else ret);
          ret = (if startswith path ''/home/'' then False else ret);
          ret = (if endswith path ''icon-theme.cache'' then False else ret);
          ret = (if startswith path ''/var/cache/fontconfig/'' then False else ret);
          ret = (if startswith path ''/var/lib/nagios3/spool/'' then False else ret);
          ret = (if startswith path ''/var/lib/nagios3/spool/checkresults/''
                 then False else ret);
          ret = (if startswith path ''/var/lib/postgresql/'' then False else ret);
          ret = (if startswith path ''/var/lib/vdr/'' then False else ret);
          ret = (if startswith path ''/[aio]'' then False else ret);
          ret = (if startswith path ''/SYSV'' then False else ret)
      in ret)"

text \<open>The prefixes tested by the clearing statements, in source order.\<close>

definition exclusion_prefixes :: "string list" where
  "exclusion_prefixes =
     [''/var/log/'', ''/var/local/log/'', ''/var/run/'', ''/var/local/run/'', ''/tmp/'',
      ''/dev/shm/'', ''/run/'', ''/drm'', ''/var/tmp/'', ''/var/local/tmp/'', ''/dev/zero'',
      ''/dev/pts/'', ''/usr/lib/locale/'', ''/home/'', ''/var/cache/fontconfig/'',
      ''/var/lib/nagios3/spool/'', ''/var/lib/nagios3/spool/checkresults/'',
      ''/var/lib/postgresql/'', ''/var/lib/vdr/'', ''/[aio]'', ''/SYSV'']"

definition under_exclusion_prefix :: "string \<Rightarrow> bool" where
  "under_exclusion_prefix path = list_ex (startswith path) exclusion_prefixes"

section \<open>The host as the module sees it\<close>

text \<open>
  Everything the module reads from outside (the process table, the proc filesystem,
  command output, grains, the package and service collaborators) is a field of one
  record. The host is read as a snapshot: the same question asked twice during one run
  gets the same answer. A call that can raise in the source returns an option here,
  \<open>None\<close> standing for the exception named beside the field.
\<close>

record world =
  process_iter :: "(int \<times> string) option list"
    \<comment> \<open>per process the \<open>pid\<close> and \<open>name\<close> of \<open>proc.as_dict\<close>; \<open>None\<close>: \<open>psutil.NoSuchProcess\<close>\<close>
  fopen_lines :: "string \<Rightarrow> string list option"
    \<comment> \<open>\<open>salt.utils.files.fopen(p)\<close> then \<open>readlines()\<close>; \<open>None\<close>: IOError/OSError on opening\<close>
  listdir :: "string \<Rightarrow> string list option"
    \<comment> \<open>\<open>os.listdir\<close>; \<open>None\<close>: OSError\<close>
  readlink :: "string \<Rightarrow> string option"
    \<comment> \<open>\<open>os.readlink\<close>; \<open>None\<close>: OSError\<close>
  isfile :: "string \<Rightarrow> bool"
  isdir :: "string \<Rightarrow> bool"
  os_walk :: "string \<Rightarrow> (string \<times> string list) list"
    \<comment> \<open>the \<open>(root, files)\<close> of each triple that \<open>os_walk(p, followlinks=True)\<close> yields\<close>
  exists_on_disk :: "string \<Rightarrow> bool"
  getmtime :: "string \<Rightarrow> int option"
    \<comment> \<open>\<open>int(os.path.getmtime(p))\<close>; \<open>None\<close>: OSError\<close>
  file_read :: "string \<Rightarrow> string"
  cmd_run :: "string \<Rightarrow> string"
  cmd_shell :: "string \<Rightarrow> string"
  cmd_retcode :: "string \<Rightarrow> int"
  popen_stdout :: "string \<Rightarrow> string"
    \<comment> \<open>what \<open>subprocess.Popen(cmd, shell=True, stdout=PIPE)\<close> writes to its pipe\<close>
  pkg_owner :: "string \<Rightarrow> string"
  service_available :: "string \<Rightarrow> bool"
  reboot_required_witnessed :: bool
  grains_os_family :: string
  grains_os :: string
  grains_cpuarch :: "string option"
    \<comment> \<open>\<open>__grains__.get('cpuarch')\<close>, \<open>None\<close> when the grain is missing\<close>

datatype exn = IndexError | TypeError | OSError | IOError | ValueError

definition os_path_exists :: "world \<Rightarrow> string \<Rightarrow> bool" where
  \<comment> \<open>\<open>os.path.exists('')\<close> is \<open>False\<close> on every host\<close>
  "os_path_exists w p = (p \<noteq> [] \<and> exists_on_disk w p)"

definition path_join :: "string \<Rightarrow> string \<Rightarrow> string" where
  \<comment> \<open>\<open>posixpath.join\<close> of two components\<close>
  "path_join a b =
     (if startswith b ''/'' then b
      else if a = [] \<or> endswith a ''/'' then a @ b
      else a @ ''/'' @ b)"

definition digit_char :: "nat \<Rightarrow> char" where
  "digit_char d = ''0123456789'' ! d"

fun string_of_nat :: "nat \<Rightarrow> string" where
  "string_of_nat n =
     (if n < 10 then [digit_char n] else string_of_nat (n div 10) @ [digit_char (n mod 10)])"

declare string_of_nat.simps [simp del]

definition text_type_int :: "int \<Rightarrow> string" where
  \<comment> \<open>\<open>six.text_type(i)\<close> and \<open>'{0}'.format(i)\<close> of an integer\<close>
  "text_type_int i = (if i < 0 then ''-'' @ string_of_nat (nat (- i)) else string_of_nat (nat i))"

section \<open>\<open>_deleted_files\<close>\<close>

subsection \<open>The line pattern of \<open>/proc/PID/maps\<close>\<close>

text \<open>
  \<open>mapline.match(line)\<close> with the pattern
  \<^verbatim>\<open>^[\da-f]+-[\da-f]+ [r-][w-][x-][sp-] [\da-f]+ [\da-f]{2}:[\da-f]{2} (\d+) *(.+)( \(deleted\))?\n$\<close>.
  Each piece up to the inode is followed by a literal that the piece cannot match, so a
  greedy run has exactly one way to succeed and the pieces are consumed left to right.
\<close>

definition is_hex :: "char \<Rightarrow> bool" where
  "is_hex c = (is_digit c \<or> c \<in> set ''abcdef'')"

definition hex_run :: "string \<Rightarrow> string option" where
  \<comment> \<open>\<open>[\da-f]+\<close> before a character that is not a hex digit: the rest after the run\<close>
  "hex_run s = (if takeWhile is_hex s = [] then None else Some (dropWhile is_hex s))"

definition lit :: "string \<Rightarrow> string \<Rightarrow> string option" where
  "lit p s = (if startswith s p then Some (drop (length p) s) else None)"

definition one_of :: "string \<Rightarrow> string \<Rightarrow> string option" where
  "one_of cs s = (case s of [] \<Rightarrow> None | c # r \<Rightarrow> if c \<in> set cs then Some r else None)"

definition hex1 :: "string \<Rightarrow> string option" where
  "hex1 s = (case s of [] \<Rightarrow> None | c # r \<Rightarrow> if is_hex c then Some r else None)"

text \<open>
  The tail \<^verbatim>\<open>(\d+) *(.+)( \(deleted\))?\n$\<close>, returning group 2. No piece matches a
  newline before the final \<open>\n\<close>, and \<open>$\<close> accepts the end of the string or one last
  newline, so the text is a newline-free body followed by one or two newlines. On the
  body the matcher tries the longest digit run, then the longest run of spaces, then the
  longest \<open>.+\<close>: whenever something is left after the spaces, \<open>.+\<close> takes all of it (the
  deleted marker included, the optional group then matching empty). When nothing is
  left, the spaces give one character back, and failing that the digits do.
\<close>

definition mapline_tail :: "string \<Rightarrow> string option" where
  "mapline_tail rest =
     (let body = takeWhile (\<lambda>c. c \<noteq> newline) rest;
          nl = dropWhile (\<lambda>c. c \<noteq> newline) rest;
          ds = takeWhile is_digit body;
          r1 = dropWhile is_digit body;
          sp = takeWhile (\<lambda>c. c = CHR '' '') r1;
          r2 = dropWhile (\<lambda>c. c = CHR '' '') r1
      in if nl \<noteq> [newline] \<and> nl \<noteq> [newline, newline] then None
         else if ds = [] then None
         else if r2 \<noteq> [] then Some r2
         else if sp \<noteq> [] then Some '' ''
         else if 2 \<le> length ds then Some [last ds]
         else None)"

definition mapline_group2 :: "string \<Rightarrow> string option" where
  "mapline_group2 line =
     hex_run line \<bind> lit ''-'' \<bind> hex_run \<bind> lit '' '' \<bind>
     one_of ''r-'' \<bind> one_of ''w-'' \<bind> one_of ''x-'' \<bind> one_of ''sp-'' \<bind> lit '' '' \<bind>
     hex_run \<bind> lit '' '' \<bind>
     hex1 \<bind> hex1 \<bind> lit '':'' \<bind> hex1 \<bind> hex1 \<bind> lit '' '' \<bind>
     mapline_tail"

subsection \<open>The scan\<close>

type_synonym deleted_file = "string \<times> int \<times> string"

definition append_new :: "'a \<Rightarrow> 'a list \<Rightarrow> 'a list" where
  \<comment> \<open>\<open>if val not in deleted_files: deleted_files.append(val)\<close>\<close>
  "append_new val xs = (if val \<in> set xs then xs else xs @ [val])"

definition maps_line :: "string \<Rightarrow> int \<Rightarrow> string \<Rightarrow> deleted_file list \<Rightarrow> deleted_file list" where
  "maps_line name pid line deleted_files =
     (case mapline_group2 line of
        None \<Rightarrow> deleted_files
      | Some path \<Rightarrow>
          if path \<noteq> [] \<and> valid_deleted_file path
          then append_new (name, pid, take (length path - 10) path) deleted_files
          else deleted_files)"

definition maps_probe :: "string \<Rightarrow> int \<Rightarrow> string list \<Rightarrow> deleted_file list \<Rightarrow> deleted_file list" where
  "maps_probe name pid maplines deleted_files = fold (maps_line name pid) maplines deleted_files"

definition fd_filenames :: "world \<Rightarrow> string \<Rightarrow> string list" where
  "fd_filenames w target =
     (if isfile w target then [target]
      else if isdir w target \<and> target \<noteq> ''/''
      then concat (map (\<lambda>(root, files). map (path_join root) files) (os_walk w target))
      else [])"

definition fd_file :: "string \<Rightarrow> int \<Rightarrow> string \<Rightarrow> deleted_file list \<Rightarrow> deleted_file list" where
  "fd_file name pid filename deleted_files =
     (if valid_deleted_file filename then append_new (name, pid, filename) deleted_files
      else deleted_files)"

text \<open>
  The loop over the fd links sits inside \<open>try: ... except OSError: pass\<close>: the first
  link that cannot be read ends the loop and keeps what was collected.
\<close>

fun fd_probe :: "world \<Rightarrow> string \<Rightarrow> int \<Rightarrow> string \<Rightarrow> string list \<Rightarrow> deleted_file list
    \<Rightarrow> deleted_file list" where
  "fd_probe w name pid dirpath [] deleted_files = deleted_files"
| "fd_probe w name pid dirpath (link # links) deleted_files =
     (case readlink w (dirpath @ link) of
        None \<Rightarrow> deleted_files
      | Some target \<Rightarrow>
          fd_probe w name pid dirpath links
            (fold (fd_file name pid) (fd_filenames w target) deleted_files))"

text \<open>
  The loop over the processes. \<open>None\<close> is the \<open>return False\<close> of the handler around
  the opening of the maps file and the listing of the fd directory.
\<close>

fun scan_processes :: "world \<Rightarrow> (int \<times> string) option list \<Rightarrow> deleted_file list
    \<Rightarrow> deleted_file list option" where
  "scan_processes w [] deleted_files = Some deleted_files"
| "scan_processes w (None # procs) deleted_files = scan_processes w procs deleted_files"
| "scan_processes w (Some (pid, name) # procs) deleted_files =
     (case fopen_lines w (''/proc/'' @ text_type_int pid @ ''/maps'') of
        None \<Rightarrow> None
      | Some maplines \<Rightarrow>
          (let dirpath = ''/proc/'' @ text_type_int pid @ ''/fd/'' in
           case listdir w dirpath of
             None \<Rightarrow> None
           | Some links \<Rightarrow>
               scan_processes w procs
                 (fd_probe w name pid dirpath links (maps_probe name pid maplines deleted_files))))"

definition deleted_files :: "world \<Rightarrow> deleted_file list option" where
  "deleted_files w = scan_processes w (process_iter w) []"

text \<open>The two openings whose failure the scan answers with \<open>return False\<close>.\<close>

definition unopenable :: "world \<Rightarrow> int \<Rightarrow> bool" where
  "unopenable w pid =
     (fopen_lines w (''/proc/'' @ text_type_int pid @ ''/maps'') = None \<or>
      listdir w (''/proc/'' @ text_type_int pid @ ''/fd/'') = None)"

section \<open>Kernel versions\<close>

subsection \<open>More string primitives\<close>

definition is_linebreak :: "char \<Rightarrow> bool" where
  \<comment> \<open>the one-character line boundaries of \<open>str.splitlines\<close> among 8-bit characters\<close>
  "is_linebreak c =
     (c \<in> {newline, CHR 0x0B, CHR 0x0C, CHR 0x0D, CHR 0x1C, CHR 0x1D, CHR 0x1E, CHR 0x85})"

text \<open>
  \<open>str.splitlines()\<close>: every boundary closes the current line, \<open>\r\n\<close> counting as one
  boundary, and text after the last boundary is a line only when it is not empty.
\<close>

fun splitlines_from :: "string \<Rightarrow> string \<Rightarrow> string list" where
  "splitlines_from cur [] = (if cur = [] then [] else [cur])"
| "splitlines_from cur [c] = (if is_linebreak c then [cur] else [cur @ [c]])"
| "splitlines_from cur (c # d # s) =
     (if c = CHR 0x0D \<and> d = newline then cur # splitlines_from [] s
      else if is_linebreak c then cur # splitlines_from [] (d # s)
      else splitlines_from (cur @ [c]) (d # s))"

definition splitlines :: "string \<Rightarrow> string list" where
  "splitlines s = splitlines_from [] s"

definition rstrip_chars :: "string \<Rightarrow> string \<Rightarrow> string" where
  \<comment> \<open>\<open>s.rstrip(chars)\<close>: \<open>chars\<close> is a set of characters, not a suffix\<close>
  "rstrip_chars s chars = rev (dropWhile (\<lambda>c. c \<in> set chars) (rev s))"

definition strip_chars :: "string \<Rightarrow> string \<Rightarrow> string" where
  \<comment> \<open>\<open>s.strip(chars)\<close>\<close>
  "strip_chars s chars = rstrip_chars (dropWhile (\<lambda>c. c \<in> set chars) s) chars"

definition is_space :: "char \<Rightarrow> bool" where
  \<comment> \<open>\<open>str.isspace\<close> among 8-bit characters\<close>
  "is_space c =
     (c \<in> {CHR 0x09, newline, CHR 0x0B, CHR 0x0C, CHR 0x0D, CHR 0x1C, CHR 0x1D, CHR 0x1E,
            CHR 0x1F, CHR 0x20, CHR 0x85, CHR 0xA0})"

definition rstrip :: "string \<Rightarrow> string" where
  "rstrip s = rev (dropWhile is_space (rev s))"

fun find_from :: "nat \<Rightarrow> string \<Rightarrow> string \<Rightarrow> int" where
  "find_from i [] sub = (if sub = [] then int i else - 1)"
| "find_from i (c # s) sub =
     (if startswith (c # s) sub then int i else find_from (Suc i) s sub)"

definition str_find :: "string \<Rightarrow> string \<Rightarrow> int" where
  \<comment> \<open>\<open>s.find(sub)\<close>: the lowest index where \<open>sub\<close> occurs, \<open>-1\<close> when it does not\<close>
  "str_find s sub = find_from 0 s sub"

definition contains :: "string \<Rightarrow> string \<Rightarrow> bool" where
  \<comment> \<open>\<open>sub in s\<close>\<close>
  "contains s sub = (0 \<le> str_find s sub)"

definition rsplit1 :: "string \<Rightarrow> char \<Rightarrow> string list" where
  \<comment> \<open>\<open>s.rsplit(sep, 1)\<close> for a separator of one character\<close>
  "rsplit1 s sep =
     (if sep \<in> set s
      then [rev (tl (dropWhile (\<lambda>c. c \<noteq> sep) (rev s))), rev (takeWhile (\<lambda>c. c \<noteq> sep) (rev s))]
      else [s])"

definition basename :: "string \<Rightarrow> string" where
  \<comment> \<open>\<open>os.path.basename\<close>: what follows the last slash\<close>
  "basename p = rev (takeWhile (\<lambda>c. c \<noteq> CHR ''/'') (rev p))"

definition cpuarch_has_arm :: "world \<Rightarrow> exn + bool" where
  \<comment> \<open>\<open>'arm' in __grains__.get('cpuarch')\<close>; \<open>in\<close> on \<open>None\<close> raises TypeError\<close>
  "cpuarch_has_arm w =
     (case grains_cpuarch w of None \<Rightarrow> Inl TypeError | Some a \<Rightarrow> Inr (contains a ''arm''))"

subsection \<open>\<open>_kernel_versions_debian\<close>\<close>

text \<open>
  \<open>try: kernel = kernels[-2]\<close>, \<open>except IndexError: kernel = kernels[0]\<close>. The index
  \<open>-2\<close> exists from two lines on; \<open>kernels[0]\<close> in the handler raises again on an empty list,
  and nothing catches that.
\<close>

definition select_kernel :: "string list \<Rightarrow> exn + string" where
  "select_kernel kernels =
     (if 2 \<le> length kernels then Inr (kernels ! (length kernels - 2))
      else (case kernels of [] \<Rightarrow> Inl IndexError | k # _ \<Rightarrow> Inr k))"

definition installed_versions :: "string list \<Rightarrow> string list" where
  \<comment> \<open>the loop over the policy output: the first \<open>Installed\<close> line, stripped, then \<open>break\<close>\<close>
  "installed_versions policy_lines =
     (case filter (\<lambda>line. startswith line ''  Installed: '') policy_lines of
        [] \<Rightarrow> []
      | line # _ \<Rightarrow> [strip_chars line ''  Installed: ''])"

definition debian_selections :: "world \<Rightarrow> string list" where
  \<comment> \<open>the list \<open>kernels\<close>: the lines of the package-selections output\<close>
  "debian_selections w = splitlines (cmd_run w ''dpkg --get-selections linux-image-*'')"

definition debian_installed_versions :: "world \<Rightarrow> string \<Rightarrow> exn + string list" where
  \<comment> \<open>\<open>_kernel_versions_debian\<close> from \<open>kernel = kernel.rstrip('\t\tinstall')\<close> on\<close>
  "debian_installed_versions w selected =
     (let kernel = rstrip_chars selected ([CHR 0x09, CHR 0x09] @ ''install'');
          kernel_get_version = cmd_run w (''apt-cache policy '' @ kernel);
          kernel_versions = installed_versions (splitlines kernel_get_version)
      in if grains_os w = ''Ubuntu''
         then (case kernel_versions of
                 [] \<Rightarrow> Inl IndexError
               | v # _ \<Rightarrow>
                   (case rsplit1 v CHR ''.'' of
                      [a, b] \<Rightarrow>
                        Inr (kernel_versions @
                             [a @ ''-generic #'' @ b, a @ ''-lowlatency #'' @ b])
                    | _ \<Rightarrow> Inl IndexError))
         else Inr kernel_versions)"

definition kernel_versions_debian :: "world \<Rightarrow> exn + string list" where
  "kernel_versions_debian w =
     (case select_kernel (debian_selections w) of
        Inl e \<Rightarrow> Inl e
      | Inr selected \<Rightarrow> debian_installed_versions w selected)"

subsection \<open>\<open>_kernel_versions_redhat\<close>\<close>

definition kernel_versions_redhat :: "world \<Rightarrow> exn + string list" where
  "kernel_versions_redhat w =
     (let kernel_get_last = cmd_run w ''rpm -q --last kernel'';
          kernels = filter (\<lambda>line. contains line ''kernel-'') (splitlines kernel_get_last)
      in case kernels of
           [] \<Rightarrow> Inl IndexError
         | k # _ \<Rightarrow> Inr [strip_chars (takeWhile (\<lambda>c. c \<noteq> CHR '' '') k) ''kernel-''])"

subsection \<open>NI Linux Real-Time\<close>

definition kvregex :: string where
  "kvregex = ''[0-9]+'' @ [CHR 0x5C] @ ''.[0-9]+'' @ [CHR 0x5C] @ ''.[0-9]+-rt''"

definition kv_cmd :: "string \<Rightarrow> string" where
  \<comment> \<open>\<open>kv_cmd.format(img, kvregex)\<close>\<close>
  "kv_cmd img =
     ''strings '' @ img @ '' | awk '' @ [CHR 0x27] @ ''$1 ~ /'' @ kvregex @ ''/ {print $1}'' @
     [CHR 0x27] @ '' | head -n1''"

definition is_older_nilrt :: "world \<Rightarrow> bool" where
  "is_older_nilrt w = os_path_exists w ''/usr/local/natinst/bin/nisafemodeversion''"

text \<open>
  On the older ARM targets the source first runs \<open>dumpimage\<close> and \<open>gunzip\<close> through
  \<open>cmd.run\<close> and discards what they print; in a snapshot of the host they leave no trace.
\<close>

definition kernel_versions_nilrt :: "world \<Rightarrow> exn + string list" where
  "kernel_versions_nilrt w =
     (if is_older_nilrt w
      then (case cpuarch_has_arm w of
              Inl e \<Rightarrow> Inl e
            | Inr True \<Rightarrow> Inr [cmd_shell w (kv_cmd ''/var/volatile/tmp/uImage'')]
            | Inr False \<Rightarrow> Inr [cmd_shell w (kv_cmd ''/boot/runmode/bzImage'')])
      else (case cpuarch_has_arm w of
              Inl e \<Rightarrow> Inl e
            | Inr True \<Rightarrow>
                (case readlink w ''/boot/uImage'' of
                   None \<Rightarrow> Inl OSError
                 | Some t \<Rightarrow> Inr [strip_chars (basename t) ''uImage-''])
            | Inr False \<Rightarrow>
                (case readlink w ''/boot/bzImage'' of
                   None \<Rightarrow> Inl OSError
                 | Some t \<Rightarrow> Inr [strip_chars (basename t) ''bzImage-''])))"

definition file_changed_nilrt :: "world \<Rightarrow> string \<Rightarrow> exn + bool" where
  "file_changed_nilrt w full_filepath =
     (let rs_state_dir = ''/var/lib/salt/restartcheck_state'';
          base_filename = basename full_filepath;
          timestamp_file = path_join rs_state_dir (base_filename @ ''.timestamp'');
          md5sum_file = path_join rs_state_dir (base_filename @ ''.md5sum'')
      in if \<not> os_path_exists w timestamp_file \<or> \<not> os_path_exists w md5sum_file then Inr True
         else (let prev_timestamp = rstrip (file_read w timestamp_file) in
               case getmtime w full_filepath of
                 None \<Rightarrow> Inl OSError
               | Some t \<Rightarrow>
                   if prev_timestamp \<noteq> text_type_int t then Inr True
                   else Inr (cmd_retcode w (''md5sum -cs '' @ md5sum_file) \<noteq> 0)))"

definition kernel_modules_changed_nilrt :: "world \<Rightarrow> string \<Rightarrow> exn + bool" where
  \<comment> \<open>the caller passes an element of the version list, never \<open>None\<close>\<close>
  "kernel_modules_changed_nilrt w kernelversion =
     file_changed_nilrt w (''/lib/modules/'' @ kernelversion @ ''/modules.dep'')"

definition py_int :: "string \<Rightarrow> int option" where
  \<comment> \<open>\<open>int(s)\<close> of text: surrounding whitespace, an optional sign, decimal digits;
      \<open>None\<close>: ValueError\<close>
  "py_int s =
     (let t = rstrip (dropWhile is_space s);
          neg = (t \<noteq> [] \<and> hd t = CHR ''-'');
          ds = (if t \<noteq> [] \<and> (hd t = CHR ''-'' \<or> hd t = CHR ''+'') then tl t else t);
          v = foldl (\<lambda>a c. 10 * a + (int (of_char c) - 48)) 0 ds
      in if ds = [] \<or> \<not> list_all is_digit ds then None
         else Some (if neg then - v else v))"

fun any_changed :: "world \<Rightarrow> string list \<Rightarrow> exn + bool" where
  "any_changed w [] = Inr False"
| "any_changed w (p # ps) =
     (case file_changed_nilrt w p of
        Inl e \<Rightarrow> Inl e
      | Inr True \<Rightarrow> Inr True
      | Inr False \<Rightarrow> any_changed w ps)"

definition sysapi_conf_d :: "world \<Rightarrow> string \<Rightarrow> exn + bool" where
  \<comment> \<open>the part of \<open>_sysapi_changed_nilrt\<close> from \<open>restartcheck_state_dir\<close> on\<close>
  "sysapi_conf_d w arch_dir =
     (let restartcheck_state_dir = ''/var/lib/salt/restartcheck_state'';
          nisysapi_conf_d_path = ''/usr/lib/'' @ arch_dir @ ''/nisysapi/conf.d/experts/''
      in if os_path_exists w nisysapi_conf_d_path
         then (let rs_count_file = restartcheck_state_dir @ ''/sysapi.conf.d.count'' in
               if \<not> os_path_exists w rs_count_file then Inr True
               else (case fopen_lines w rs_count_file of
                       None \<Rightarrow> Inl IOError
                     | Some content \<Rightarrow>
                         (case listdir w nisysapi_conf_d_path of
                            None \<Rightarrow> Inl OSError
                          | Some experts \<Rightarrow>
                              (case py_int (concat content) of
                                 None \<Rightarrow> Inl ValueError
                               | Some rs_stored_nb_files \<Rightarrow>
                                   if int (length experts) \<noteq> rs_stored_nb_files then Inr True
                                   else any_changed w
                                          (map (\<lambda>fexpert. nisysapi_conf_d_path @ ''/'' @ fexpert)
                                             experts)))))
         else Inr False)"

definition sysapi_changed_nilrt :: "world \<Rightarrow> exn + bool" where
  "sysapi_changed_nilrt w =
     (let nisysapi_path = ''/usr/local/natinst/share/nisysapi.ini'';
          ini_changed = (if os_path_exists w nisysapi_path
                         then file_changed_nilrt w nisysapi_path else Inr False)
      in case ini_changed of
           Inl e \<Rightarrow> Inl e
         | Inr True \<Rightarrow> Inr True
         | Inr False \<Rightarrow>
             (case cpuarch_has_arm w of
                Inl e \<Rightarrow> Inl e
              | Inr True \<Rightarrow> sysapi_conf_d w ''arm-linux-gnueabi''
              | Inr False \<Rightarrow> sysapi_conf_d w ''x86_64-linux-gnu''))"

subsection \<open>The kernel check of \<open>restartcheck\<close>\<close>

text \<open>
  The loop over the candidate versions, started with \<open>kernel_restart = True\<close>; the
  result is the value of \<open>kernel_restart\<close> after the loop.
\<close>

fun kernel_check :: "world \<Rightarrow> string \<Rightarrow> string list \<Rightarrow> exn + bool" where
  "kernel_check w kernel_current [] = Inr True"
| "kernel_check w kernel_current (candidate # candidates) =
     (if contains kernel_current candidate
      then (if grains_os_family w = ''NILinuxRT''
            then (case kernel_modules_changed_nilrt w candidate of
                    Inl e \<Rightarrow> Inl e
                  | Inr True \<Rightarrow> kernel_check w kernel_current candidates
                  | Inr False \<Rightarrow>
                      (case sysapi_changed_nilrt w of
                         Inl e \<Rightarrow> Inl e
                       | Inr True \<Rightarrow> kernel_check w kernel_current candidates
                       | Inr False \<Rightarrow>
                           if reboot_required_witnessed w
                           then kernel_check w kernel_current candidates
                           else Inr False))
            else Inr False)
      else kernel_check w kernel_current candidates)"

section \<open>\<open>restartcheck\<close>\<close>

subsection \<open>Arguments and results\<close>

text \<open>
  \<open>ignorelist\<close>, \<open>blacklist\<close> and \<open>excludepid\<close> are each \<open>None\<close>, one value or a list.
\<close>

datatype 'a pyarg = PyNone | PyVal 'a | PyList "'a list"

definition normalize :: "('a \<Rightarrow> bool) \<Rightarrow> 'a list \<Rightarrow> 'a pyarg \<Rightarrow> 'a list" where
  \<comment> \<open>\<open>if x: if not isinstance(x, list): x = [x]\<close>, \<open>else: x = default\<close>; the first
      argument is the truth value of a single value\<close>
  "normalize truthy dflt x =
     (case x of
        PyNone \<Rightarrow> dflt
      | PyVal v \<Rightarrow> if truthy v then [v] else dflt
      | PyList vs \<Rightarrow> if vs \<noteq> [] then vs else dflt)"

definition str_truthy :: "string \<Rightarrow> bool" where
  "str_truthy s = (s \<noteq> [])"

definition int_truthy :: "int \<Rightarrow> bool" where
  "int_truthy i = (i \<noteq> 0)"

definition effective_ignorelist :: "string pyarg \<Rightarrow> string list" where
  "effective_ignorelist ignorelist = normalize str_truthy [''screen'', ''systemd''] ignorelist"

definition effective_blacklist :: "string pyarg \<Rightarrow> string list" where
  "effective_blacklist blacklist = normalize str_truthy [] blacklist"

definition effective_excludepid :: "int pyarg \<Rightarrow> int list" where
  "effective_excludepid excludepid = normalize int_truthy [] excludepid"

datatype result =
    Failure string        \<comment> \<open>the dict \<open>{'result': False, 'comment': ...}\<close>\<close>
  | Text string           \<comment> \<open>a returned string\<close>
  | Names "string list"   \<comment> \<open>the list returned when \<open>verbose\<close> is false\<close>
  | Raised exn            \<comment> \<open>an exception that leaves \<open>restartcheck\<close>\<close>

subsection \<open>From deleted files to packages\<close>

record entry =
  initscripts :: "string list"
  systemdservice :: "string list"
  processes :: "string list"
  process_name :: string

text \<open>
  The dict \<open>packages\<close> is a list of pairs in insertion order; a key is only ever added
  when it is absent. \<open>owners_cache\<close> is a map.
\<close>

type_synonym package_map = "(string \<times> entry) list"

record scan_state =
  excluded_pids :: "int list"
  owners_cache :: "string \<rightharpoonup> string"
  packages :: package_map

definition program_line :: "int \<Rightarrow> string \<Rightarrow> string \<Rightarrow> string" where
  "program_line pid exe path =
     [CHR 0x09] @ text_type_int pid @ '' '' @ exe @ '' (file: '' @ path @ '')''"

definition add_process :: "string \<Rightarrow> string \<Rightarrow> string \<Rightarrow> package_map \<Rightarrow> package_map" where
  "add_process packagename name program pkgs =
     (case map_of pkgs packagename of
        None \<Rightarrow>
          pkgs @ [(packagename,
                   \<lparr>initscripts = [], systemdservice = [], processes = [program],
                    process_name = name\<rparr>)]
      | Some e \<Rightarrow>
          if program \<in> set (processes e) then pkgs
          else map (\<lambda>(k, v). if k = packagename
                              then (k, v\<lparr>processes := processes v @ [program]\<rparr>)
                              else (k, v)) pkgs)"

definition resolve_owner :: "world \<Rightarrow> string \<Rightarrow> string \<Rightarrow> (string \<rightharpoonup> string)
    \<Rightarrow> string \<times> (string \<rightharpoonup> string)" where
  \<comment> \<open>\<open>try: packagename = owners_cache[readlink]\<close>, \<open>except KeyError: ...\<close>\<close>
  "resolve_owner w exe name cache =
     (case cache exe of
        Some packagename \<Rightarrow> (packagename, cache)
      | None \<Rightarrow>
          (let owner = pkg_owner w exe;
               packagename = (if owner = [] then name else owner)
           in (packagename, cache(exe \<mapsto> packagename))))"

definition process_deleted_file :: "world \<Rightarrow> string list \<Rightarrow> string list \<Rightarrow> deleted_file
    \<Rightarrow> scan_state \<Rightarrow> scan_state" where
  "process_deleted_file w ignorelist blacklist deleted_file st =
     (case deleted_file of (name, pid, path) \<Rightarrow>
        if path \<in> set blacklist \<or> pid \<in> set (excluded_pids st) then st
        else (case readlink w (''/proc/'' @ text_type_int pid @ ''/exe'') of
                None \<Rightarrow> st\<lparr>excluded_pids := excluded_pids st @ [pid]\<rparr>
              | Some exe \<Rightarrow>
                  (case resolve_owner w exe name (owners_cache st) of
                     (packagename, cache) \<Rightarrow>
                       if packagename \<noteq> [] \<and> packagename \<notin> set ignorelist
                       then st\<lparr>owners_cache := cache,
                               packages := add_process packagename name
                                             (program_line pid exe path) (packages st)\<rparr>
                       else st\<lparr>owners_cache := cache\<rparr>)))"

definition collect_packages :: "world \<Rightarrow> string list \<Rightarrow> string list \<Rightarrow> int list
    \<Rightarrow> deleted_file list \<Rightarrow> package_map" where
  "collect_packages w ignorelist blacklist excluded dfs =
     packages (fold (process_deleted_file w ignorelist blacklist) dfs
                 \<lparr>excluded_pids = excluded, owners_cache = Map.empty, packages = []\<rparr>)"

subsection \<open>Init scripts and systemd units of a package\<close>

record platform =
  cmd_pkg_query :: string
  systemd_folder :: string
  systemd :: string

text \<open>
  On NILinuxRT the source leaves \<open>systemd_folder\<close> unassigned and sets \<open>systemd = ''\<close>.
  \<open>os.path.exists('')\<close> is false, so the conjunction that would read \<open>systemd_folder\<close>
  stops before it; the empty string stands for the variable that is never read.
\<close>

definition debian_platform :: platform where
  "debian_platform =
     \<lparr>cmd_pkg_query = ''dpkg-query --listfiles '', systemd_folder = ''/lib/systemd/system/'',
      systemd = ''/bin/systemd''\<rparr>"

definition redhat_platform :: platform where
  "redhat_platform =
     \<lparr>cmd_pkg_query = ''repoquery -l '', systemd_folder = ''/usr/lib/systemd/system/'',
      systemd = ''/usr/bin/systemctl''\<rparr>"

definition nilrt_platform :: platform where
  "nilrt_platform = \<lparr>cmd_pkg_query = ''opkg files '', systemd_folder = [], systemd = []\<rparr>"

definition platform_of :: "string \<Rightarrow> platform option" where
  "platform_of os_family =
     (if os_family = ''Debian'' then Some debian_platform
      else if os_family = ''RedHat'' then Some redhat_platform
      else if os_family = ''NILinuxRT'' then Some nilrt_platform
      else None)"

definition kernel_versions :: "world \<Rightarrow> exn + string list" where
  \<comment> \<open>the detector that the branch on \<open>os_family\<close> calls\<close>
  "kernel_versions w =
     (if grains_os_family w = ''Debian'' then kernel_versions_debian w
      else if grains_os_family w = ''RedHat'' then kernel_versions_redhat w
      else kernel_versions_nilrt w)"

fun pipe_lines_from :: "string \<Rightarrow> string \<Rightarrow> string list" where
  "pipe_lines_from cur [] = (if cur = [] then [] else [cur])"
| "pipe_lines_from cur (c # s) =
     (if c = newline then (cur @ [c]) # pipe_lines_from [] s
      else pipe_lines_from (cur @ [c]) s)"

definition pipe_lines :: "string \<Rightarrow> string list" where
  \<comment> \<open>the successive results of \<open>readline()\<close> up to the empty one that ends the loop:
      each line with its newline, the last one possibly without\<close>
  "pipe_lines out = pipe_lines_from [] out"

definition unit_is_oneshot :: "string list \<Rightarrow> bool" where
  \<comment> \<open>the loop over the unit file that sets \<open>is_oneshot\<close>\<close>
  "unit_is_oneshot body =
     fold (\<lambda>line is_oneshot. if 0 < str_find line ''Type=oneshot'' then True else is_oneshot)
       body False"

definition is_unit_path :: "world \<Rightarrow> platform \<Rightarrow> string \<Rightarrow> bool" where
  "is_unit_path w pf pth =
     (os_path_exists w (systemd pf) \<and> startswith pth (systemd_folder pf) \<and>
      endswith pth ''.service'' \<and> str_find pth ''.wants'' = - 1)"

definition scan_installed_line :: "world \<Rightarrow> platform \<Rightarrow> string \<Rightarrow> entry \<Rightarrow> entry" where
  \<comment> \<open>one round of the \<open>while True\<close> loop, for a line that is not empty\<close>
  "scan_installed_line w pf line e =
     (let pth = butlast line;
          e = (if startswith pth ''/etc/init.d/'' \<and> \<not> endswith pth ''.sh''
               then e\<lparr>initscripts := initscripts e @ [drop 12 pth]\<rparr> else e)
      in if is_unit_path w pf pth
         then (case fopen_lines w pth of
                 None \<Rightarrow> e
               | Some body \<Rightarrow>
                   if \<not> unit_is_oneshot body
                   then e\<lparr>systemdservice :=
                            systemdservice e @ [drop (length (systemd_folder pf)) pth]\<rparr>
                   else e)
         else e)"

definition installed_services :: "world \<Rightarrow> platform \<Rightarrow> string \<times> entry \<Rightarrow> string \<times> entry" where
  "installed_services w pf pe =
     (case pe of (package, e) \<Rightarrow>
        (package,
         fold (scan_installed_line w pf)
           (pipe_lines (popen_stdout w (cmd_pkg_query pf @ package))) e))"

definition fallback_service :: "world \<Rightarrow> string \<times> entry \<Rightarrow> string \<times> entry" where
  \<comment> \<open>the loop headed \<open>Alternatively, find init.d script or service that match the
      process name\<close>\<close>
  "fallback_service w pe =
     (case pe of (package, e) \<Rightarrow>
        if systemdservice e = [] \<and> initscripts e = []
        then (if service_available w (process_name e)
              then (if os_path_exists w (''/etc/init.d/'' @ process_name e)
                    then (package, e\<lparr>initscripts := initscripts e @ [process_name e]\<rparr>)
                    else (package, e\<lparr>systemdservice := systemdservice e @ [process_name e]\<rparr>))
              else (package, e))
        else (package, e))"

definition resolve_services :: "world \<Rightarrow> platform \<Rightarrow> package_map \<Rightarrow> package_map" where
  "resolve_services w pf pkgs = map (fallback_service w) (map (installed_services w pf) pkgs)"

subsection \<open>The plan\<close>

record plan =
  restartable :: "string list"
  nonrestartable :: "string list"
  restartinitcommands :: "string list"
  restartservicecommands :: "string list"

definition plan_step :: "string \<times> entry \<Rightarrow> plan \<Rightarrow> plan" where
  "plan_step pe pl =
     (case pe of (package, e) \<Rightarrow>
        if initscripts e \<noteq> []
        then pl\<lparr>restartable := restartable pl @ [package],
                restartinitcommands := restartinitcommands pl @
                  map (\<lambda>s. ''service '' @ s @ '' restart'') (initscripts e)\<rparr>
        else if systemdservice e \<noteq> []
        then pl\<lparr>restartable := restartable pl @ [package],
                restartservicecommands := restartservicecommands pl @
                  map (\<lambda>s. ''systemctl restart '' @ s) (systemdservice e)\<rparr>
        else pl\<lparr>nonrestartable := nonrestartable pl @ [package]\<rparr>)"

definition build_plan :: "package_map \<Rightarrow> plan" where
  "build_plan pkgs =
     fold plan_step pkgs
       \<lparr>restartable = [], nonrestartable = [], restartinitcommands = [],
        restartservicecommands = []\<rparr>"

subsection \<open>\<open>_format_output\<close>\<close>

definition join_lines :: "string list \<Rightarrow> string" where
  \<comment> \<open>\<open>'\n'.join(xs)\<close>\<close>
  "join_lines xs = (case xs of [] \<Rightarrow> [] | x # r \<Rightarrow> x @ concat (map (\<lambda>y. newline # y) r))"

definition package_block :: "package_map \<Rightarrow> string \<Rightarrow> string" where
  \<comment> \<open>\<open>ret += package + ':\n'\<close> and one line per program; every listed package is a key\<close>
  "package_block pkgs package =
     package @ '':'' @ [newline] @
     concat (map (\<lambda>program. program @ [newline])
               (case map_of pkgs package of None \<Rightarrow> [] | Some e \<Rightarrow> processes e))"

definition format_verbose :: "bool \<Rightarrow> package_map \<Rightarrow> plan \<Rightarrow> string" where
  "format_verbose kernel_restart pkgs pl =
     (let ret = (if kernel_restart then ''System restart required.'' @ [newline, newline] else []);
          ret = (if pkgs \<noteq> []
                 then ret @ ''Found '' @ string_of_nat (length pkgs) @
                      '' processes using old versions of upgraded files.'' @ [newline] @
                      ''These are the packages:'' @ [newline]
                 else ret);
          ret = (if restartable pl \<noteq> []
                 then (let ret = ret @ ''Of these, '' @ string_of_nat (length (restartable pl)) @
                              '' seem to contain systemd service definitions or init scripts '' @
                              ''which can be used to restart them:'' @ [newline];
                           ret = ret @ concat (map (package_block pkgs) (restartable pl));
                           ret = (if restartservicecommands pl \<noteq> []
                                  then ret @ [newline, newline] @
                                       ''These are the systemd services:'' @ [newline] @
                                       join_lines (restartservicecommands pl)
                                  else ret);
                           ret = (if restartinitcommands pl \<noteq> []
                                  then ret @ [newline, newline] @
                                       ''These are the initd scripts:'' @ [newline] @
                                       join_lines (restartinitcommands pl)
                                  else ret)
                       in ret)
                 else ret);
          ret = (if nonrestartable pl \<noteq> []
                 then ret @ [newline, newline] @ ''These processes '' @
                      string_of_nat (length (nonrestartable pl)) @
                      '' do not seem to have an associated init script to restart them:'' @
                      [newline] @
                      concat (map (package_block pkgs) (nonrestartable pl))
                 else ret)
      in ret)"

definition format_output :: "bool \<Rightarrow> package_map \<Rightarrow> bool \<Rightarrow> plan \<Rightarrow> result" where
  "format_output kernel_restart pkgs verbose pl =
     (if \<not> verbose
      then Names (restartable pl @ nonrestartable pl @
                  (if kernel_restart then [''System restart required.''] else []))
      else Text (format_verbose kernel_restart pkgs pl))"

subsection \<open>The whole function\<close>

definition candidate_packages :: "world \<Rightarrow> platform \<Rightarrow> string list \<Rightarrow> string list \<Rightarrow> int list
    \<Rightarrow> deleted_file list \<Rightarrow> package_map" where
  \<comment> \<open>the dict \<open>packages\<close> when the plan is built\<close>
  "candidate_packages w pf ignorelist blacklist excluded dfs =
     resolve_services w pf (collect_packages w ignorelist blacklist excluded dfs)"

text \<open>
  \<open>after_scan\<close> is \<open>restartcheck\<close> from the loop over \<open>deleted_files\<close> to the end, with
  the value of \<open>kernel_restart\<close>, the three normalised lists and the scanner's list.
\<close>

definition after_scan :: "world \<Rightarrow> platform \<Rightarrow> bool \<Rightarrow> string list \<Rightarrow> string list \<Rightarrow> int list
    \<Rightarrow> bool \<Rightarrow> deleted_file list \<Rightarrow> result" where
  "after_scan w pf kernel_restart ignorelist blacklist excluded verbose dfs =
     (if length (collect_packages w ignorelist blacklist excluded dfs) = 0 \<and> \<not> kernel_restart
      then Text ''No packages seem to need to be restarted.''
      else (let pkgs = candidate_packages w pf ignorelist blacklist excluded dfs
            in format_output kernel_restart pkgs verbose (build_plan pkgs)))"

text \<open>
  \<open>restartcheck_with\<close> takes what \<open>_deleted_files()\<close> returned as an argument;
  \<open>restartcheck\<close> passes the scan of the host.
\<close>

definition restartcheck_with :: "world \<Rightarrow> deleted_file list option \<Rightarrow> string pyarg
    \<Rightarrow> string pyarg \<Rightarrow> int pyarg \<Rightarrow> bool \<Rightarrow> result" where
  "restartcheck_with w scanned ignorelist blacklist excludepid verbose =
     (case platform_of (grains_os_family w) of
        None \<Rightarrow>
          Failure ''Only available on Debian, Red Hat and NI Linux Real-Time based systems.''
      | Some pf \<Rightarrow>
          (case kernel_versions w of
             Inl e \<Rightarrow> Raised e
           | Inr versions \<Rightarrow>
               (case kernel_check w (cmd_run w ''uname -a'') versions of
                  Inl e \<Rightarrow> Raised e
                | Inr kernel_restart \<Rightarrow>
                    (case scanned of
                       None \<Rightarrow>
                         Failure ''Could not get list of processes. (Do you have root access?)''
                     | Some dfs \<Rightarrow>
                         after_scan w pf kernel_restart (effective_ignorelist ignorelist)
                           (effective_blacklist blacklist) (effective_excludepid excludepid)
                           verbose dfs))))"

definition restartcheck :: "world \<Rightarrow> string pyarg \<Rightarrow> string pyarg \<Rightarrow> int pyarg \<Rightarrow> bool
    \<Rightarrow> result" where
  "restartcheck w ignorelist blacklist excludepid verbose =
     restartcheck_with w (deleted_files w) ignorelist blacklist excludepid verbose"

subsection \<open>Vocabulary of the properties\<close>

definition survives :: "string list \<Rightarrow> int list \<Rightarrow> deleted_file \<Rightarrow> bool" where
  \<comment> \<open>the record is neither blacklisted by its path nor excluded by its pid\<close>
  "survives blacklist excluded df =
     (case df of (name, pid, path) \<Rightarrow> \<not> (path \<in> set blacklist \<or> pid \<in> set excluded))"

definition has_service :: "entry \<Rightarrow> bool" where
  \<comment> \<open>at least one init script or systemd service\<close>
  "has_service e = (initscripts e \<noteq> [] \<or> systemdservice e \<noteq> [])"

definition init_command :: "string \<Rightarrow> string" where
  "init_command s = ''service '' @ s @ '' restart''"

definition service_command :: "string \<Rightarrow> string" where
  "service_command s = ''systemctl restart '' @ s"

definition line_of :: "world \<Rightarrow> deleted_file \<Rightarrow> string option" where
  \<comment> \<open>the line that \<open>restartcheck\<close> lists for a record, when the executable link resolves\<close>
  "line_of w df =
     (case df of (name, pid, path) \<Rightarrow>
        map_option (\<lambda>exe. program_line pid exe path)
          (readlink w (''/proc/'' @ text_type_int pid @ ''/exe'')))"

definition traced :: "world \<Rightarrow> deleted_file set \<Rightarrow> entry \<Rightarrow> bool" where
  \<comment> \<open>every listed line and the process name of the entry come from records of \<open>S\<close>\<close>
  "traced w S e =
     ((\<forall>program \<in> set (processes e). \<exists>df \<in> S. line_of w df = Some program) \<and>
      (\<exists>df \<in> S. fst df = process_name e))"

definition restart_plan :: "world \<Rightarrow> platform \<Rightarrow> string list \<Rightarrow> string list \<Rightarrow> int list
    \<Rightarrow> deleted_file list \<Rightarrow> plan" where
  \<comment> \<open>the four lists that \<open>restartcheck\<close> hands to \<open>_format_output\<close>\<close>
  "restart_plan w pf ignorelist blacklist excluded dfs =
     build_plan (candidate_packages w pf ignorelist blacklist excluded dfs)"

section \<open>Concrete hosts\<close>

text \<open>A host with no processes, no files and silent collaborators, on Debian.\<close>

definition host0 :: world where
  "host0 =
     \<lparr>process_iter = [], fopen_lines = (\<lambda>p. None), listdir = (\<lambda>p. None),
      readlink = (\<lambda>p. None), isfile = (\<lambda>p. False), isdir = (\<lambda>p. False),
      os_walk = (\<lambda>p. []), exists_on_disk = (\<lambda>p. False), getmtime = (\<lambda>p. None),
      file_read = (\<lambda>p. []), cmd_run = (\<lambda>c. []), cmd_shell = (\<lambda>c. []),
      cmd_retcode = (\<lambda>c. 0), popen_stdout = (\<lambda>c. []), pkg_owner = (\<lambda>p. []),
      service_available = (\<lambda>n. False), reboot_required_witnessed = False,
      grains_os_family = ''Debian'', grains_os = ''Debian'', grains_cpuarch = Some ''x86_64''\<rparr>"

definition libfoo_mapline :: string where
  "libfoo_mapline =
     ''7f1c2000-7f1c3000 r-xp 00000000 08:02 173521   /usr/lib/libfoo.so.1 (deleted)'' @ [newline]"

text \<open>
  Two processes; process 1 has exited since it was enumerated, so neither its maps file
  nor its fd directory can be opened. Process 2 maps a deleted library.
\<close>

definition host_vanished :: world where
  "host_vanished =
     host0\<lparr>process_iter := [Some (1, ''gone''), Some (2, ''sshd'')],
           fopen_lines := (\<lambda>p. if p = ''/proc/2/maps'' then Some [libfoo_mapline] else None),
           listdir := (\<lambda>p. if p = ''/proc/2/fd/'' then Some [] else None)\<rparr>"

text \<open>
  One process that reaches the same path three times: two identical maps lines whose
  stored path is \<open>/usr/lib/libfoo.so.1 (deleted)\<close>, and an fd link to a file of that name.
\<close>

definition host_twice :: world where
  "host_twice =
     host0\<lparr>process_iter := [Some (7, ''vim'')],
           fopen_lines := (\<lambda>p. if p = ''/proc/7/maps''
              then Some [''7f1c2000-7f1c3000 r-xp 00000000 08:02 173521   /usr/lib/libfoo.so.1 (deleted) (deleted)'' @ [newline],
                         ''7f1c2000-7f1c3000 r-xp 00000000 08:02 173521   /usr/lib/libfoo.so.1 (deleted) (deleted)'' @ [newline]]
              else None),
           listdir := (\<lambda>p. if p = ''/proc/7/fd/'' then Some [''3''] else None),
           readlink := (\<lambda>p. if p = ''/proc/7/fd/3'' then Some ''/usr/lib/libfoo.so.1 (deleted)'' else None),
           isfile := (\<lambda>p. p = ''/usr/lib/libfoo.so.1 (deleted)'')\<rparr>"


text \<open>
  A Debian host with three kernel packages selected, running the kernel of the
  second-to-last one, and with no process.
\<close>

definition host_quiet :: world where
  "host_quiet =
     host0\<lparr>cmd_run := (\<lambda>c.
        if c = ''dpkg --get-selections linux-image-*''
        then ''linux-image-4.9.0-7-amd64'' @ [CHR 0x09, CHR 0x09] @ ''install'' @ [newline] @
             ''linux-image-4.9.0-8-amd64'' @ [CHR 0x09, CHR 0x09] @ ''install'' @ [newline] @
             ''linux-image-amd64'' @ [CHR 0x09, CHR 0x09] @ ''install'' @ [newline]
        else if c = ''apt-cache policy linux-image-4.9.0-8-amd64''
        then ''linux-image-4.9.0-8-amd64:'' @ [newline] @
             ''  Installed: 4.9.144-3'' @ [newline] @
             ''  Candidate: 4.9.144-3'' @ [newline]
        else if c = ''uname -a''
        then ''Linux box 4.9.0-8-amd64 #1 SMP Debian 4.9.144-3 (2019-02-02) x86_64 GNU/Linux''
        else [])\<rparr>"

text \<open>The same host with a single kernel package selected.\<close>

definition host_one_kernel :: world where
  "host_one_kernel =
     host_quiet\<lparr>cmd_run := (\<lambda>c.
        if c = ''dpkg --get-selections linux-image-*''
        then ''linux-image-4.9.0-8-amd64'' @ [CHR 0x09, CHR 0x09] @ ''install'' @ [newline]
        else cmd_run host_quiet c)\<rparr>"

text \<open>
  The quiet host with one process, \<open>nginx\<close>, that maps a deleted library. The package
  \<open>nginx\<close> installs an init script and a systemd unit.
\<close>

definition host_nginx :: world where
  "host_nginx =
     host_quiet\<lparr>process_iter := [Some (10, ''nginx'')],
       fopen_lines := (\<lambda>p.
         if p = ''/proc/10/maps'' then Some [libfoo_mapline]
         else if p = ''/lib/systemd/system/nginx.service''
         then Some [''[Service]'' @ [newline], ''ExecStart=/usr/sbin/nginx'' @ [newline]]
         else None),
       listdir := (\<lambda>p. if p = ''/proc/10/fd/'' then Some [] else None),
       readlink := (\<lambda>p. if p = ''/proc/10/exe'' then Some ''/usr/sbin/nginx'' else None),
       pkg_owner := (\<lambda>p. if p = ''/usr/sbin/nginx'' then ''nginx'' else []),
       exists_on_disk := (\<lambda>p. p = ''/bin/systemd''),
       popen_stdout := (\<lambda>c.
         if c = ''dpkg-query --listfiles nginx''
         then ''/etc/init.d/nginx'' @ [newline] @
              ''/lib/systemd/system/nginx.service'' @ [newline] @
              ''/usr/sbin/nginx'' @ [newline]
         else [])\<rparr>"

text \<open>
  The quiet host with one process, \<open>fstrim\<close>, that maps a deleted library. The package
  \<open>util-linux\<close> installs one systemd unit, whose body declares \<open>Type=oneshot\<close>.
\<close>

definition host_oneshot :: world where
  "host_oneshot =
     host_quiet\<lparr>process_iter := [Some (11, ''fstrim'')],
       fopen_lines := (\<lambda>p.
         if p = ''/proc/11/maps'' then Some [libfoo_mapline]
         else if p = ''/lib/systemd/system/fstrim.service''
         then Some [''[Service]'' @ [newline], ''Type=oneshot'' @ [newline],
                    ''ExecStart=/sbin/fstrim -av'' @ [newline]]
         else None),
       listdir := (\<lambda>p. if p = ''/proc/11/fd/'' then Some [] else None),
       readlink := (\<lambda>p. if p = ''/proc/11/exe'' then Some ''/sbin/fstrim'' else None),
       pkg_owner := (\<lambda>p. if p = ''/sbin/fstrim'' then ''util-linux'' else []),
       exists_on_disk := (\<lambda>p. p = ''/bin/systemd''),
       popen_stdout := (\<lambda>c.
         if c = ''dpkg-query --listfiles util-linux''
         then ''/lib/systemd/system/fstrim.service'' @ [newline] @
              ''/sbin/fstrim'' @ [newline]
         else [])\<rparr>"

text \<open>
  The quiet host with one process, \<open>screen\<close>, that maps a deleted library and whose
  executable belongs to the package \<open>screen\<close>.
\<close>

definition host_screen :: world where
  "host_screen =
     host_quiet\<lparr>process_iter := [Some (12, ''screen'')],
       fopen_lines := (\<lambda>p. if p = ''/proc/12/maps'' then Some [libfoo_mapline] else None),
       listdir := (\<lambda>p. if p = ''/proc/12/fd/'' then Some [] else None),
       readlink := (\<lambda>p. if p = ''/proc/12/exe'' then Some ''/usr/bin/screen'' else None),
       pkg_owner := (\<lambda>p. if p = ''/usr/bin/screen'' then ''screen'' else [])\<rparr>"

text \<open>
  The nginx host with a second process of the same executable: process 10 is named in
  \<open>excludepid\<close> below, and the path mapped by process 13 is named in \<open>blacklist\<close>.
\<close>

definition libbar_mapline :: string where
  "libbar_mapline =
     ''7f1c4000-7f1c5000 r-xp 00000000 08:02 173522   /usr/lib/libbar.so.2 (deleted)'' @ [newline]"

definition host_two :: world where
  "host_two =
     host_nginx\<lparr>process_iter := [Some (10, ''nginx''), Some (13, ''nginx'')],
       fopen_lines := (\<lambda>p.
         if p = ''/proc/13/maps'' then Some [libbar_mapline, libfoo_mapline]
         else fopen_lines host_nginx p),
       listdir := (\<lambda>p. if p = ''/proc/13/fd/'' then Some [] else listdir host_nginx p),
       readlink := (\<lambda>p. if p = ''/proc/13/exe'' then Some ''/usr/sbin/nginx''
                         else readlink host_nginx p)\<rparr>"

text \<open>The same for the service manager: a process \<open>systemd\<close> of the package \<open>systemd\<close>.\<close>

definition host_systemd :: world where
  "host_systemd =
     host_quiet\<lparr>process_iter := [Some (1, ''systemd'')],
       fopen_lines := (\<lambda>p. if p = ''/proc/1/maps'' then Some [libfoo_mapline] else None),
       listdir := (\<lambda>p. if p = ''/proc/1/fd/'' then Some [] else None),
       readlink := (\<lambda>p. if p = ''/proc/1/exe'' then Some ''/lib/systemd/systemd'' else None),
       pkg_owner := (\<lambda>p. if p = ''/lib/systemd/systemd'' then ''systemd'' else [])\<rparr>"

section \<open>Properties of \<open>_valid_deleted_file\<close>\<close>

lemma endswith_last:
  "endswith s (p @ [c]) \<Longrightarrow> s \<noteq> [] \<and> last s = c"
proof -
  assume h: "endswith s (p @ [c])"
  then have "drop (length s - length (p @ [c])) s = p @ [c]"
    by (simp add: endswith_def)
  then have "s = take (length s - length (p @ [c])) s @ p @ [c]"
    by (metis append_take_drop_id)
  then obtain q where "s = q @ [c]"
    by (metis append.assoc)
  then show ?thesis by simp
qed

lemma inode_tail_hd: "inode_tail r \<Longrightarrow> r \<noteq> [] \<and> hd r = CHR '')''"
  by (cases r) (simp_all add: inode_tail_def)

lemma inode_search_last:
  "inode_search path \<Longrightarrow> path \<noteq> [] \<and> (last path = CHR '')'' \<or> last path = newline)"
proof -
  assume h: "inode_search path"
  show ?thesis
  proof (cases "rev path")
    case Nil
    with h show ?thesis by (simp add: inode_search_def inode_tail_def)
  next
    case (Cons c r)
    then have p: "path = rev r @ [c]" by (metis rev_rev_ident rev.simps(2))
    from h Cons have "c = CHR '')'' \<or> c = newline"
      by (auto simp: inode_search_def dest: inode_tail_hd)
    with p show ?thesis by simp
  qed
qed

lemma marked_not_icon_cache:
  assumes "endswith path '' (deleted)'' \<or> inode_search path"
  shows "\<not> endswith path ''icon-theme.cache''"
proof
  assume "endswith path ''icon-theme.cache''"
  then have "endswith path (''icon-theme.cach'' @ [CHR ''e''])" by simp
  then have e: "last path = CHR ''e''" by (rule endswith_last [THEN conjunct2])
  from assms show False
  proof
    assume "endswith path '' (deleted)''"
    then have "endswith path ('' (deleted'' @ [CHR '')''])" by simp
    then have "last path = CHR '')''" by (rule endswith_last [THEN conjunct2])
    with e show False by simp
  next
    assume "inode_search path"
    then have "last path = CHR '')'' \<or> last path = newline"
      by (rule inode_search_last [THEN conjunct2])
    with e show False by (auto simp: newline_def)
  qed
qed

text \<open>
  What the reversed-string test decides, read forwards: the path is some prefix, the
  literal \<open>(path inode=\<close>, a non-empty run of digits and \<open>)\<close>, optionally followed by
  one final newline.
\<close>

lemma startswith_iff: "startswith s p \<longleftrightarrow> (\<exists>q. s = p @ q)"
proof
  assume "startswith s p"
  then have "s = p @ drop (length p) s"
    by (metis startswith_def append_take_drop_id)
  then show "\<exists>q. s = p @ q" ..
next
  assume "\<exists>q. s = p @ q"
  then show "startswith s p" by (auto simp: startswith_def)
qed

lemma run_then_stop:
  "list_all P xs \<Longrightarrow> \<not> P y \<Longrightarrow>
   takeWhile P (xs @ y # ys) = xs \<and> dropWhile P (xs @ y # ys) = y # ys"
  by (induction xs) auto

lemma digits_then_literal:
  assumes l: "l \<noteq> []" "\<not> is_digit (last l)"
  shows "(takeWhile is_digit r1 \<noteq> [] \<and> startswith (dropWhile is_digit r1) (rev l)) \<longleftrightarrow>
         (\<exists>pre ds. ds \<noteq> [] \<and> list_all is_digit ds \<and> rev r1 = pre @ l @ ds)"
proof
  assume h: "takeWhile is_digit r1 \<noteq> [] \<and> startswith (dropWhile is_digit r1) (rev l)"
  then obtain q where q: "dropWhile is_digit r1 = rev l @ q"
    unfolding startswith_iff by blast
  have "r1 = takeWhile is_digit r1 @ dropWhile is_digit r1" by simp
  then have "rev r1 = rev (dropWhile is_digit r1) @ rev (takeWhile is_digit r1)"
    by (metis rev_append)
  then have "rev r1 = rev q @ l @ rev (takeWhile is_digit r1)"
    by (simp add: q)
  moreover have "list_all is_digit (rev (takeWhile is_digit r1))"
    by (simp add: list_all_iff) (meson set_takeWhileD)
  moreover from h have "rev (takeWhile is_digit r1) \<noteq> []" by simp
  ultimately show "\<exists>pre ds. ds \<noteq> [] \<and> list_all is_digit ds \<and> rev r1 = pre @ l @ ds"
    by blast
next
  assume "\<exists>pre ds. ds \<noteq> [] \<and> list_all is_digit ds \<and> rev r1 = pre @ l @ ds"
  then obtain pre ds where ds: "ds \<noteq> []" "list_all is_digit ds"
    and e: "rev r1 = pre @ l @ ds"
    by blast
  from e have "r1 = rev (pre @ l @ ds)" by (metis rev_rev_ident)
  then have r: "r1 = rev ds @ (rev l @ rev pre)" by simp
  from l obtain c l' where rl: "rev l = c # l'" and nd: "\<not> is_digit c"
    by (cases "rev l") (auto simp: last_rev hd_rev)
  from ds(2) have all: "list_all is_digit (rev ds)" by (simp add: list_all_iff)
  have t: "takeWhile is_digit r1 = rev ds"
    unfolding r rl append_Cons using run_then_stop [OF all nd] by blast
  have dr: "dropWhile is_digit r1 = rev l @ rev pre"
    unfolding r rl append_Cons using run_then_stop [OF all nd] by blast
  show "takeWhile is_digit r1 \<noteq> [] \<and> startswith (dropWhile is_digit r1) (rev l)"
    unfolding t dr startswith_iff using ds(1) by blast
qed

lemma path_inode_literal:
  "''(path inode='' \<noteq> [] \<and> \<not> is_digit (last ''(path inode='')"
  by (simp add: is_digit_def)

lemma inode_tail_Cons:
  "inode_tail (c # r1) \<longleftrightarrow> c = CHR '')'' \<and>
     (\<exists>pre ds. ds \<noteq> [] \<and> list_all is_digit ds \<and> rev r1 = pre @ ''(path inode='' @ ds)"
proof -
  have "inode_tail (c # r1) \<longleftrightarrow> c = CHR '')'' \<and>
      (takeWhile is_digit r1 \<noteq> [] \<and> startswith (dropWhile is_digit r1) (rev ''(path inode=''))"
    unfolding inode_tail_def list.case by (rule refl)
  also have "\<dots> \<longleftrightarrow> c = CHR '')'' \<and>
     (\<exists>pre ds. ds \<noteq> [] \<and> list_all is_digit ds \<and> rev r1 = pre @ ''(path inode='' @ ds)"
    by (subst digits_then_literal [OF path_inode_literal [THEN conjunct1]
          path_inode_literal [THEN conjunct2]]) (rule refl)
  finally show ?thesis .
qed

lemma snoc_split:
  "(c = k \<and> (\<exists>pre ds. Q ds \<and> xs = pre @ l @ ds)) \<longleftrightarrow>
   (\<exists>pre ds. Q ds \<and> xs @ [c] = pre @ l @ ds @ [k])"
proof
  assume "c = k \<and> (\<exists>pre ds. Q ds \<and> xs = pre @ l @ ds)"
  then obtain pre ds where "Q ds" "xs = pre @ l @ ds" "c = k" by blast
  then have "Q ds \<and> xs @ [c] = pre @ l @ ds @ [k]" by simp
  then show "\<exists>pre ds. Q ds \<and> xs @ [c] = pre @ l @ ds @ [k]" by blast
next
  assume "\<exists>pre ds. Q ds \<and> xs @ [c] = pre @ l @ ds @ [k]"
  then obtain pre ds where q: "Q ds" and e: "xs @ [c] = pre @ l @ ds @ [k]" by blast
  from e have "xs @ [c] = (pre @ l @ ds) @ [k]" by simp
  then have "xs = pre @ l @ ds \<and> c = k" by (rule append1_eq_conv [THEN iffD1])
  with q show "c = k \<and> (\<exists>pre ds. Q ds \<and> xs = pre @ l @ ds)" by blast
qed

lemma inode_tail_iff:
  "inode_tail r \<longleftrightarrow>
     (\<exists>pre ds. (ds \<noteq> [] \<and> list_all is_digit ds) \<and>
        rev r = pre @ ''(path inode='' @ ds @ [CHR '')''])"
proof (cases r)
  case Nil
  have "\<not> inode_tail []" by (simp add: inode_tail_def)
  moreover have "[] \<noteq> pre @ ''(path inode='' @ ds @ [CHR '')'']" for pre ds :: string
    by (metis Nil_is_append_conv not_Cons_self2)
  ultimately show ?thesis unfolding Nil rev.simps by blast
next
  case (Cons c r1)
  show ?thesis
    unfolding Cons rev.simps inode_tail_Cons
    using snoc_split [of c "CHR '')''" "\<lambda>ds. ds \<noteq> [] \<and> list_all is_digit ds" "rev r1"
        "''(path inode=''"]
    by (simp only: conj_assoc)
qed

lemma inode_search_iff:
  "inode_search path \<longleftrightarrow>
     (\<exists>pre ds. (ds \<noteq> [] \<and> list_all is_digit ds) \<and>
        (path = pre @ ''(path inode='' @ ds @ [CHR '')''] \<or>
         path = (pre @ ''(path inode='' @ ds @ [CHR '')'']) @ [newline]))"
proof -
  let ?M = "\<lambda>s. \<exists>pre ds. (ds \<noteq> [] \<and> list_all is_digit ds) \<and>
                s = pre @ ''(path inode='' @ ds @ [CHR '')'']"
  have a: "inode_tail (rev path) \<longleftrightarrow> ?M path"
    unfolding inode_tail_iff rev_rev_ident by (rule refl)
  have b: "(case rev path of [] \<Rightarrow> False | c # r \<Rightarrow> c = newline \<and> inode_tail r) \<longleftrightarrow>
           (\<exists>s. ?M s \<and> path = s @ [newline])"
  proof (cases "rev path")
    case Nil
    then have "path = []" by simp
    then show ?thesis unfolding Nil list.case by blast
  next
    case (Cons c r)
    then have p: "path = rev r @ [c]" by (metis rev_rev_ident rev.simps(2))
    have "(case rev path of [] \<Rightarrow> False | c # r \<Rightarrow> c = newline \<and> inode_tail r) \<longleftrightarrow>
          (c = newline \<and> ?M (rev r))"
      unfolding Cons list.case inode_tail_iff by (rule refl)
    also have "\<dots> \<longleftrightarrow> (\<exists>s. ?M s \<and> rev r @ [c] = s @ [newline])"
      by (metis append1_eq_conv)
    also have "\<dots> \<longleftrightarrow> (\<exists>s. ?M s \<and> path = s @ [newline])"
      unfolding p by (rule refl)
    finally show ?thesis .
  qed
  show ?thesis unfolding inode_search_def a b by blast
qed

lemma if_clear: "(if c then False else r) = (\<not> c \<and> r)"
  by simp

lemma if_set: "(if c then True else r) = (c \<or> r)"
  by simp

lemma valid_deleted_file_iff:
  "valid_deleted_file path \<longleftrightarrow>
     (endswith path '' (deleted)'' \<or> inode_search path) \<and>
     \<not> under_exclusion_prefix path \<and> \<not> endswith path ''icon-theme.cache''"
  unfolding valid_deleted_file_def under_exclusion_prefix_def exclusion_prefixes_def Let_def
    if_clear if_set list_ex_Nil_iff list_ex_Cons_iff
  by blast

text \<open>
  C1. Every path that ends in \<open> (deleted)\<close> or matches the \<open>(path inode=N)\<close> suffix
  pattern and starts with none of the exclusion prefixes is accepted, and every path
  under \<open>/tmp/\<close>, \<open>/var/log/\<close>, \<open>/run/\<close> or \<open>/home/\<close> is rejected whether or not it
  carries the marker.
\<close>

theorem C1_valid_deleted_file:
  "((endswith path '' (deleted)'' \<or> inode_search path) \<and> \<not> under_exclusion_prefix path
      \<longrightarrow> valid_deleted_file path) \<and>
   (startswith path ''/tmp/'' \<or> startswith path ''/var/log/'' \<or> startswith path ''/run/'' \<or>
    startswith path ''/home/'' \<longrightarrow> \<not> valid_deleted_file path)"
proof (intro conjI impI)
  assume h: "(endswith path '' (deleted)'' \<or> inode_search path) \<and> \<not> under_exclusion_prefix path"
  then have "\<not> endswith path ''icon-theme.cache''"
    using marked_not_icon_cache by blast
  with h show "valid_deleted_file path"
    by (simp add: valid_deleted_file_iff)
next
  assume "startswith path ''/tmp/'' \<or> startswith path ''/var/log/'' \<or>
          startswith path ''/run/'' \<or> startswith path ''/home/''"
  then have "under_exclusion_prefix path"
    unfolding under_exclusion_prefix_def exclusion_prefixes_def list_ex_Nil_iff list_ex_Cons_iff
    by blast
  then show "\<not> valid_deleted_file path"
    by (simp add: valid_deleted_file_iff)
qed

theorem C1_valid_deleted_file_witness:
  "(endswith ''/usr/lib/libfoo.so.1 (deleted)'' '' (deleted)'' \<and>
    \<not> under_exclusion_prefix ''/usr/lib/libfoo.so.1 (deleted)'' \<and>
    valid_deleted_file ''/usr/lib/libfoo.so.1 (deleted)'') \<and>
   (inode_search ''/usr/lib/libbar.so (path inode=4711)'' \<and>
    \<not> under_exclusion_prefix ''/usr/lib/libbar.so (path inode=4711)'' \<and>
    valid_deleted_file ''/usr/lib/libbar.so (path inode=4711)'') \<and>
   (startswith ''/var/log/app.log (deleted)'' ''/var/log/'' \<and>
    \<not> valid_deleted_file ''/var/log/app.log (deleted)'')"
  using C1_valid_deleted_file [of "''/usr/lib/libfoo.so.1 (deleted)''"]
    C1_valid_deleted_file [of "''/usr/lib/libbar.so (path inode=4711)''"]
    C1_valid_deleted_file [of "''/var/log/app.log (deleted)''"]
  by (simp add: endswith_def startswith_def under_exclusion_prefix_def exclusion_prefixes_def
      inode_search_def inode_tail_def is_digit_def)

section \<open>Properties of \<open>_deleted_files\<close>\<close>

lemma distinct_append_new: "distinct xs \<Longrightarrow> distinct (append_new v xs)"
  by (simp add: append_new_def)

lemma distinct_maps_line: "distinct acc \<Longrightarrow> distinct (maps_line name pid line acc)"
  by (simp add: maps_line_def distinct_append_new split: option.split)

lemma distinct_maps_probe: "distinct acc \<Longrightarrow> distinct (maps_probe name pid ls acc)"
  unfolding maps_probe_def
  by (induction ls arbitrary: acc) (simp_all add: distinct_maps_line)

lemma distinct_fd_file: "distinct acc \<Longrightarrow> distinct (fd_file name pid f acc)"
  by (simp add: fd_file_def distinct_append_new)

lemma distinct_fd_files: "distinct acc \<Longrightarrow> distinct (fold (fd_file name pid) fs acc)"
  by (induction fs arbitrary: acc) (simp_all add: distinct_fd_file)

lemma distinct_fd_probe: "distinct acc \<Longrightarrow> distinct (fd_probe w name pid d links acc)"
  by (induction links arbitrary: acc) (simp_all add: distinct_fd_files split: option.split)

lemma distinct_scan_processes:
  "distinct acc \<Longrightarrow> scan_processes w procs acc = Some out \<Longrightarrow> distinct out"
proof (induction w procs acc rule: scan_processes.induct)
  case (1 w acc)
  then show ?case by simp
next
  case (2 w procs acc)
  then show ?case by simp
next
  case (3 w pid name procs acc)
  from "3.prems"(2) obtain maplines links where
    o: "fopen_lines w (''/proc/'' @ text_type_int pid @ ''/maps'') = Some maplines"
       "listdir w (''/proc/'' @ text_type_int pid @ ''/fd/'') = Some links"
    and r: "scan_processes w procs
              (fd_probe w name pid (''/proc/'' @ text_type_int pid @ ''/fd/'') links
                 (maps_probe name pid maplines acc)) = Some out"
    by (auto simp: Let_def split: option.splits)
  have "distinct (fd_probe w name pid (''/proc/'' @ text_type_int pid @ ''/fd/'') links
                 (maps_probe name pid maplines acc))"
    using "3.prems"(1) by (simp add: distinct_fd_probe distinct_maps_probe)
  with "3.IH" o r show ?case by simp
qed

lemma fd_probe_update:
  "fd_probe (w\<lparr>process_iter := a\<rparr>) name pid d links acc = fd_probe w name pid d links acc"
  by (induction links arbitrary: acc) (simp_all add: fd_filenames_def split: option.split)

lemma scan_processes_skip:
  "scan_processes w (ps1 @ None # ps2) acc = scan_processes w (ps1 @ ps2) acc"
proof (induction w ps1 acc rule: scan_processes.induct)
  case (1 w acc)
  then show ?case by simp
next
  case (2 w procs acc)
  then show ?case by simp
next
  case (3 w pid name procs acc)
  then show ?case by (simp add: Let_def split: option.split)
qed

lemma scan_processes_None_iff:
  "scan_processes w procs acc = None \<longleftrightarrow>
     (\<exists>pid name. Some (pid, name) \<in> set procs \<and> unopenable w pid)"
proof (induction w procs acc rule: scan_processes.induct)
  case (1 w acc)
  then show ?case by simp
next
  case (2 w procs acc)
  then show ?case by simp
next
  case (3 w pid name procs acc)
  show ?case
  proof (cases "unopenable w pid")
    case True
    then have "scan_processes w (Some (pid, name) # procs) acc = None"
      by (auto simp: unopenable_def Let_def split: option.split)
    with True show ?thesis by auto
  next
    case False
    then obtain maplines links where
      o: "fopen_lines w (''/proc/'' @ text_type_int pid @ ''/maps'') = Some maplines"
         "listdir w (''/proc/'' @ text_type_int pid @ ''/fd/'') = Some links"
      by (auto simp: unopenable_def)
    with "3.IH" False show ?thesis by (auto simp: Let_def)
  qed
qed

lemma deleted_files_host_vanished: "deleted_files host_vanished = None"
  by (simp add: deleted_files_def host_vanished_def host0_def text_type_int_def
      string_of_nat.simps digit_char_def)

lemma deleted_files_host_twice:
  "deleted_files host_twice = Some [(''vim'', 7, ''/usr/lib/libfoo.so.1 (deleted)'')]"
  by code_simp

lemma deleted_files_survivor:
  "deleted_files (host_vanished\<lparr>process_iter := [Some (2, ''sshd'')]\<rparr>) =
     Some [(''sshd'', 2, ''/usr/lib/libfoo.so.1'')]"
  by code_simp

text \<open>
  C9. The list returned by the scan holds no tuple \<open>(name, pid, path)\<close> twice, also when
  a path is reached through the maps probe and through the fd probe.
\<close>

theorem C9_scan_output_distinct: "deleted_files w = Some out \<Longrightarrow> distinct out"
  using distinct_scan_processes [of "[]" w "process_iter w" out]
  by (simp add: deleted_files_def)

theorem C9_scan_output_distinct_witness:
  "deleted_files host_twice = Some [(''vim'', 7, ''/usr/lib/libfoo.so.1 (deleted)'')] \<and>
   distinct [(''vim'', 7::int, ''/usr/lib/libfoo.so.1 (deleted)'')]"
  using C9_scan_output_distinct [OF deleted_files_host_twice] deleted_files_host_twice
  by simp

text \<open>
  C4 as stated fails: a process whose maps file can no longer be opened makes the whole
  scan return \<open>False\<close>, although scanning the other process alone yields a record.
\<close>

theorem C4_counterexample:
  "fopen_lines host_vanished ''/proc/1/maps'' = None \<and>
   deleted_files host_vanished = None \<and>
   deleted_files (host_vanished\<lparr>process_iter := [Some (2, ''sshd'')]\<rparr>) =
     Some [(''sshd'', 2, ''/usr/lib/libfoo.so.1'')]"
  using deleted_files_host_vanished deleted_files_survivor
  by (simp add: host_vanished_def host0_def)

text \<open>
  C4, amended. A process whose attribute lookup raises \<open>psutil.NoSuchProcess\<close> is
  skipped: the scan returns what it returns for the other processes. The scan returns
  \<open>False\<close> exactly when, for some process whose lookup succeeded, the maps file or the
  fd directory cannot be opened.
\<close>

theorem C4_vanished_process:
  "deleted_files (w\<lparr>process_iter := ps1 @ None # ps2\<rparr>) =
     deleted_files (w\<lparr>process_iter := ps1 @ ps2\<rparr>) \<and>
   (deleted_files w = None \<longleftrightarrow>
     (\<exists>pid name. Some (pid, name) \<in> set (process_iter w) \<and> unopenable w pid))"
proof
  have "scan_processes (w\<lparr>process_iter := ps1 @ None # ps2\<rparr>) (ps1 @ None # ps2) [] =
        scan_processes (w\<lparr>process_iter := ps1 @ None # ps2\<rparr>) (ps1 @ ps2) []"
    by (rule scan_processes_skip)
  moreover have "scan_processes (w\<lparr>process_iter := a\<rparr>) ps acc = scan_processes w ps acc"
    for a ps acc
    by (induction w ps acc rule: scan_processes.induct)
      (simp_all add: Let_def fd_probe_update split: option.split)
  ultimately show "deleted_files (w\<lparr>process_iter := ps1 @ None # ps2\<rparr>) =
     deleted_files (w\<lparr>process_iter := ps1 @ ps2\<rparr>)"
    by (simp add: deleted_files_def)
next
  show "deleted_files w = None \<longleftrightarrow>
     (\<exists>pid name. Some (pid, name) \<in> set (process_iter w) \<and> unopenable w pid)"
    unfolding deleted_files_def by (rule scan_processes_None_iff)
qed

theorem C4_vanished_process_witness:
  "deleted_files (host_vanished\<lparr>process_iter := [] @ None # [Some (2, ''sshd'')]\<rparr>) =
     Some [(''sshd'', 2, ''/usr/lib/libfoo.so.1'')] \<and>
   deleted_files host_vanished = None \<and>
   Some (1, ''gone'') \<in> set (process_iter host_vanished) \<and> unopenable host_vanished 1"
proof -
  have u: "unopenable host_vanished 1"
    by (simp add: unopenable_def host_vanished_def host0_def text_type_int_def
        string_of_nat.simps digit_char_def)
  have m: "Some (1, ''gone'') \<in> set (process_iter host_vanished)"
    by (simp add: host_vanished_def host0_def)
  have "deleted_files (host_vanished\<lparr>process_iter := [] @ None # [Some (2, ''sshd'')]\<rparr>) =
        deleted_files (host_vanished\<lparr>process_iter := [] @ [Some (2, ''sshd'')]\<rparr>)"
    using C4_vanished_process [of "[]" "[Some (2, ''sshd'')]" host_vanished] by (rule conjunct1)
  then have s: "deleted_files (host_vanished\<lparr>process_iter := [] @ None # [Some (2, ''sshd'')]\<rparr>) =
        Some [(''sshd'', 2, ''/usr/lib/libfoo.so.1'')]"
    using deleted_files_survivor by simp
  have "deleted_files host_vanished = None"
    using C4_vanished_process [of "[]" "[]" host_vanished] u m by blast
  with s u m show ?thesis by blast
qed

section \<open>Properties of \<open>_kernel_versions_debian\<close>\<close>

lemma second_to_last: "2 \<le> length xs \<Longrightarrow> xs ! (length xs - 2) = last (butlast xs)"
proof -
  assume h: "2 \<le> length xs"
  then have "butlast xs \<noteq> []"
    by (cases xs) (auto split: if_splits)
  then have "last (butlast xs) = butlast xs ! (length (butlast xs) - 1)"
    by (rule last_conv_nth)
  also have "\<dots> = xs ! (length xs - 2)"
    using h by (simp add: nth_butlast numeral_2_eq_2)
  finally show ?thesis by simp
qed

lemma select_kernel_many:
  "2 \<le> length kernels \<Longrightarrow> select_kernel kernels = Inr (last (butlast kernels))"
  by (simp add: select_kernel_def second_to_last)

lemma select_kernel_one: "length kernels = 1 \<Longrightarrow> select_kernel kernels = Inr (hd kernels)"
  by (cases kernels) (simp_all add: select_kernel_def)

lemma select_kernel_none: "select_kernel [] = Inl IndexError"
  by (simp add: select_kernel_def)

lemma debian_selections_host_quiet:
  "debian_selections host_quiet =
     [''linux-image-4.9.0-7-amd64'' @ [CHR 0x09, CHR 0x09] @ ''install'',
      ''linux-image-4.9.0-8-amd64'' @ [CHR 0x09, CHR 0x09] @ ''install'',
      ''linux-image-amd64'' @ [CHR 0x09, CHR 0x09] @ ''install'']"
  by code_simp

lemma debian_selections_host_one_kernel:
  "debian_selections host_one_kernel =
     [''linux-image-4.9.0-8-amd64'' @ [CHR 0x09, CHR 0x09] @ ''install'']"
  by code_simp

lemma debian_installed_versions_host_quiet:
  "debian_installed_versions host_quiet
     (''linux-image-4.9.0-8-amd64'' @ [CHR 0x09, CHR 0x09] @ ''install'') = Inr [''4.9.144-3'']"
  by code_simp

lemma debian_installed_versions_host_one_kernel:
  "debian_installed_versions host_one_kernel
     (''linux-image-4.9.0-8-amd64'' @ [CHR 0x09, CHR 0x09] @ ''install'') = Inr [''4.9.144-3'']"
  by code_simp

text \<open>
  C8. On Debian the detector takes the second-to-last line of the package-selections
  output as the installed kernel, and the first line when the output has one line
  only; the version query is made for the line taken.
\<close>

theorem C8_debian_kernel_selection:
  "(2 \<le> length (debian_selections w) \<longrightarrow>
      select_kernel (debian_selections w) = Inr (last (butlast (debian_selections w))) \<and>
      kernel_versions_debian w =
        debian_installed_versions w (last (butlast (debian_selections w)))) \<and>
   (length (debian_selections w) = 1 \<longrightarrow>
      select_kernel (debian_selections w) = Inr (hd (debian_selections w)) \<and>
      kernel_versions_debian w = debian_installed_versions w (hd (debian_selections w)))"
  by (simp add: kernel_versions_debian_def select_kernel_many select_kernel_one)

theorem C8_debian_kernel_selection_witness:
  "(2 \<le> length (debian_selections host_quiet) \<and>
    select_kernel (debian_selections host_quiet) =
      Inr (''linux-image-4.9.0-8-amd64'' @ [CHR 0x09, CHR 0x09] @ ''install'') \<and>
    kernel_versions_debian host_quiet = Inr [''4.9.144-3'']) \<and>
   (length (debian_selections host_one_kernel) = 1 \<and>
    select_kernel (debian_selections host_one_kernel) =
      Inr (''linux-image-4.9.0-8-amd64'' @ [CHR 0x09, CHR 0x09] @ ''install'') \<and>
    kernel_versions_debian host_one_kernel = Inr [''4.9.144-3''])"
  using C8_debian_kernel_selection [of host_quiet] C8_debian_kernel_selection [of host_one_kernel]
    debian_installed_versions_host_quiet debian_installed_versions_host_one_kernel
  by (simp add: debian_selections_host_quiet debian_selections_host_one_kernel)

section \<open>Properties of \<open>restartcheck\<close>\<close>

subsection \<open>The loop over the deleted files\<close>

lemma process_deleted_file_skip:
  "\<not> survives blacklist (excluded_pids st) df \<Longrightarrow>
   process_deleted_file w ignorelist blacklist df st = st"
  by (cases df) (simp add: survives_def process_deleted_file_def)

lemma excluded_pids_grow:
  "set (excluded_pids st) \<subseteq>
   set (excluded_pids (process_deleted_file w ignorelist blacklist df st))"
  by (cases df) (auto simp: process_deleted_file_def split: option.split prod.split)

lemma survives_mono:
  "set ex \<subseteq> set ex' \<Longrightarrow> survives blacklist ex' df \<Longrightarrow> survives blacklist ex df"
  by (cases df) (auto simp: survives_def)

lemma fold_filter_survivors:
  "set ex \<subseteq> set (excluded_pids st) \<Longrightarrow>
   fold (process_deleted_file w ignorelist blacklist) (filter (survives blacklist ex) dfs) st =
   fold (process_deleted_file w ignorelist blacklist) dfs st"
proof (induction dfs arbitrary: st)
  case Nil
  then show ?case by simp
next
  case (Cons df dfs)
  show ?case
  proof (cases "survives blacklist ex df")
    case True
    have "set ex \<subseteq> set (excluded_pids (process_deleted_file w ignorelist blacklist df st))"
      using Cons.prems excluded_pids_grow by blast
    with True Cons.IH show ?thesis by simp
  next
    case False
    then have "\<not> survives blacklist (excluded_pids st) df"
      using Cons.prems survives_mono by blast
    then have "process_deleted_file w ignorelist blacklist df st = st"
      by (rule process_deleted_file_skip)
    with False Cons show ?thesis by simp
  qed
qed

lemma collect_packages_filter:
  "collect_packages w ignorelist blacklist ex (filter (survives blacklist ex) dfs) =
   collect_packages w ignorelist blacklist ex dfs"
  unfolding collect_packages_def
  by (subst fold_filter_survivors) simp_all

lemma add_process_set:
  "(k, v) \<in> set (add_process p name prog pkgs) \<Longrightarrow>
     (k, v) \<in> set pkgs \<or>
     v = \<lparr>initscripts = [], systemdservice = [], processes = [prog], process_name = name\<rparr> \<or>
     (\<exists>v0. (k, v0) \<in> set pkgs \<and> v = v0\<lparr>processes := processes v0 @ [prog]\<rparr>)"
  by (auto simp: add_process_def split: option.splits if_splits)

lemma traced_add_process:
  assumes inv: "\<forall>(k, v) \<in> set pkgs. traced w S v"
    and df: "(name, pid, path) \<in> S"
    and line: "line_of w (name, pid, path) = Some prog"
  shows "\<forall>(k, v) \<in> set (add_process p name prog pkgs). traced w S v"
proof (clarify)
  fix k v
  assume "(k, v) \<in> set (add_process p name prog pkgs)"
  then consider "(k, v) \<in> set pkgs"
    | "v = \<lparr>initscripts = [], systemdservice = [], processes = [prog], process_name = name\<rparr>"
    | v0 where "(k, v0) \<in> set pkgs" "v = v0\<lparr>processes := processes v0 @ [prog]\<rparr>"
    using add_process_set by blast
  then show "traced w S v"
  proof cases
    case 1
    with inv show ?thesis by blast
  next
    case 2
    with df line show ?thesis by (force simp: traced_def)
  next
    case 3
    from inv 3(1) have "traced w S v0" by blast
    with 3(2) df line show ?thesis by (auto simp: traced_def)
  qed
qed

lemma traced_step:
  assumes inv: "\<forall>(k, v) \<in> set (packages st). traced w S v"
    and ex: "set ex \<subseteq> set (excluded_pids st)"
    and df: "df \<in> set dfs"
    and S: "S = {d \<in> set dfs. survives blacklist ex d}"
  shows "\<forall>(k, v) \<in> set (packages (process_deleted_file w ignorelist blacklist df st)).
           traced w S v"
proof (cases "survives blacklist (excluded_pids st) df")
  case False
  then show ?thesis using inv by (simp add: process_deleted_file_skip)
next
  case True
  obtain name pid path where d: "df = (name, pid, path)" by (cases df)
  from True ex have "survives blacklist ex df" using survives_mono by blast
  with df S have inS: "(name, pid, path) \<in> S" by (simp add: d)
  from True d have go: "\<not> (path \<in> set blacklist \<or> pid \<in> set (excluded_pids st))"
    by (simp add: survives_def)
  show ?thesis
  proof (cases "readlink w (''/proc/'' @ text_type_int pid @ ''/exe'')")
    case None
    with go d inv show ?thesis by (simp add: process_deleted_file_def)
  next
    case (Some exe)
    then have line: "line_of w (name, pid, path) = Some (program_line pid exe path)"
      by (simp add: line_of_def)
    obtain pn cache where r: "resolve_owner w exe name (owners_cache st) = (pn, cache)"
      by (cases "resolve_owner w exe name (owners_cache st)")
    have "\<forall>(k, v) \<in> set (add_process pn name (program_line pid exe path) (packages st)).
            traced w S v"
      using inv inS line by (rule traced_add_process)
    with go d Some r inv show ?thesis
      by (simp add: process_deleted_file_def)
  qed
qed

lemma traced_fold:
  "\<forall>(k, v) \<in> set (packages st). traced w S v \<Longrightarrow> set ex \<subseteq> set (excluded_pids st) \<Longrightarrow>
   set ds \<subseteq> set dfs \<Longrightarrow> S = {d \<in> set dfs. survives blacklist ex d} \<Longrightarrow>
   \<forall>(k, v) \<in> set (packages (fold (process_deleted_file w ignorelist blacklist) ds st)).
      traced w S v"
proof (induction ds arbitrary: st)
  case Nil
  then show ?case by simp
next
  case (Cons d ds)
  have 1: "\<forall>(k, v) \<in> set (packages (process_deleted_file w ignorelist blacklist d st)).
             traced w S v"
    using Cons.prems by (intro traced_step [where dfs = dfs and ex = ex]) auto
  have 2: "set ex \<subseteq> set (excluded_pids (process_deleted_file w ignorelist blacklist d st))"
    using Cons.prems(2) excluded_pids_grow by blast
  from Cons.IH [OF 1 2] Cons.prems show ?case by simp
qed

lemma traced_collect_packages:
  "\<forall>(k, v) \<in> set (collect_packages w ignorelist blacklist ex dfs).
     traced w {d \<in> set dfs. survives blacklist ex d} v"
  unfolding collect_packages_def
  by (rule traced_fold [where ex = ex and dfs = dfs]) simp_all

subsection \<open>Keys of the package map\<close>

lemma add_process_keys:
  "map fst (add_process p name prog pkgs) =
     (if p \<in> fst ` set pkgs then map fst pkgs else map fst pkgs @ [p])"
proof (cases "map_of pkgs p")
  case None
  then have "p \<notin> fst ` set pkgs" by (simp add: map_of_eq_None_iff)
  with None show ?thesis by (simp add: add_process_def)
next
  case (Some e)
  then have "p \<in> fst ` set pkgs" by (metis map_of_eq_None_iff option.distinct(1))
  moreover have "map fst (map (\<lambda>(k, v). if k = p then (k, f v) else (k, v)) pkgs) = map fst pkgs"
    for f :: "entry \<Rightarrow> entry"
    by (induction pkgs) auto
  ultimately show ?thesis using Some by (simp add: add_process_def)
qed

lemma distinct_add_process:
  "distinct (map fst pkgs) \<Longrightarrow> distinct (map fst (add_process p name prog pkgs))"
  by (simp add: add_process_keys)

lemma distinct_process_deleted_file:
  "distinct (map fst (packages st)) \<Longrightarrow>
   distinct (map fst (packages (process_deleted_file w ignorelist blacklist df st)))"
  by (cases df)
    (auto simp: process_deleted_file_def distinct_add_process split: option.split prod.split)

lemma distinct_fold_process:
  "distinct (map fst (packages st)) \<Longrightarrow>
   distinct (map fst (packages (fold (process_deleted_file w ignorelist blacklist) dfs st)))"
  by (induction dfs arbitrary: st) (simp_all add: distinct_process_deleted_file)

lemma distinct_collect_packages:
  "distinct (map fst (collect_packages w ignorelist blacklist ex dfs))"
  unfolding collect_packages_def by (rule distinct_fold_process) simp

lemma add_process_not_ignored:
  "p \<notin> set ignorelist \<Longrightarrow> \<forall>k \<in> fst ` set pkgs. k \<notin> set ignorelist \<Longrightarrow>
   \<forall>k \<in> fst ` set (add_process p name prog pkgs). k \<notin> set ignorelist"
proof -
  assume a: "p \<notin> set ignorelist" "\<forall>k \<in> fst ` set pkgs. k \<notin> set ignorelist"
  have "fst ` set (add_process p name prog pkgs) = set (map fst (add_process p name prog pkgs))"
    by simp
  also have "\<dots> \<subseteq> insert p (fst ` set pkgs)"
    by (auto simp: add_process_keys)
  finally show ?thesis using a by blast
qed

lemma process_deleted_file_not_ignored:
  assumes inv: "\<forall>k \<in> fst ` set (packages st). k \<notin> set ignorelist"
  shows "\<forall>k \<in> fst ` set (packages (process_deleted_file w ignorelist blacklist df st)).
           k \<notin> set ignorelist"
proof -
  obtain name pid path where d: "df = (name, pid, path)" by (cases df)
  show ?thesis
  proof (cases "readlink w (''/proc/'' @ text_type_int pid @ ''/exe'')")
    case None
    with inv show ?thesis by (simp add: d process_deleted_file_def)
  next
    case (Some exe)
    obtain pn cache where r: "resolve_owner w exe name (owners_cache st) = (pn, cache)"
      by (cases "resolve_owner w exe name (owners_cache st)")
    show ?thesis
    proof (cases "pn \<noteq> [] \<and> pn \<notin> set ignorelist")
      case True
      then have "\<forall>k \<in> fst ` set (add_process pn name (program_line pid exe path) (packages st)).
                   k \<notin> set ignorelist"
        using inv by (intro add_process_not_ignored) simp_all
      with inv True Some r show ?thesis by (simp add: d process_deleted_file_def)
    next
      case False
      with inv Some r show ?thesis by (auto simp: d process_deleted_file_def)
    qed
  qed
qed

lemma fold_process_not_ignored:
  "\<forall>k \<in> fst ` set (packages st). k \<notin> set ignorelist \<Longrightarrow>
   \<forall>k \<in> fst ` set (packages (fold (process_deleted_file w ignorelist blacklist) dfs st)).
      k \<notin> set ignorelist"
proof (induction dfs arbitrary: st)
  case Nil
  then show ?case by simp
next
  case (Cons d dfs)
  from Cons.prems
  have "\<forall>k \<in> fst ` set (packages (process_deleted_file w ignorelist blacklist d st)).
          k \<notin> set ignorelist"
    by (rule process_deleted_file_not_ignored)
  from Cons.IH [OF this] show ?case by simp
qed

lemma collect_packages_not_ignored:
  "k \<in> fst ` set (collect_packages w ignorelist blacklist ex dfs) \<Longrightarrow> k \<notin> set ignorelist"
  using fold_process_not_ignored
    [of "\<lparr>excluded_pids = ex, owners_cache = Map.empty, packages = []\<rparr>" ignorelist w blacklist dfs]
  by (force simp: collect_packages_def)

subsection \<open>Resolving services keeps keys, lines and process names\<close>

lemma scan_installed_line_keeps:
  "processes (scan_installed_line w pf line e) = processes e \<and>
   process_name (scan_installed_line w pf line e) = process_name e"
  by (simp add: scan_installed_line_def Let_def split: option.split)

lemma fold_scan_installed_line_keeps:
  "processes (fold (scan_installed_line w pf) ls e) = processes e \<and>
   process_name (fold (scan_installed_line w pf) ls e) = process_name e"
  by (induction ls arbitrary: e) (simp_all add: scan_installed_line_keeps)

lemma installed_services_keeps:
  "fst (installed_services w pf pe) = fst pe \<and>
   processes (snd (installed_services w pf pe)) = processes (snd pe) \<and>
   process_name (snd (installed_services w pf pe)) = process_name (snd pe)"
  by (cases pe) (simp add: installed_services_def fold_scan_installed_line_keeps)

lemma fallback_service_keeps:
  "fst (fallback_service w pe) = fst pe \<and>
   processes (snd (fallback_service w pe)) = processes (snd pe) \<and>
   process_name (snd (fallback_service w pe)) = process_name (snd pe)"
  by (cases pe) (simp add: fallback_service_def)

lemma resolve_services_keys: "map fst (resolve_services w pf pkgs) = map fst pkgs"
  by (simp add: resolve_services_def installed_services_keeps fallback_service_keeps comp_def)

lemma resolve_services_traced:
  "\<forall>(k, v) \<in> set pkgs. traced w S v \<Longrightarrow> \<forall>(k, v) \<in> set (resolve_services w pf pkgs). traced w S v"
proof (clarify)
  fix k v
  assume inv: "\<forall>(k, v) \<in> set pkgs. traced w S v"
    and m: "(k, v) \<in> set (resolve_services w pf pkgs)"
  from m obtain pe where pe: "pe \<in> set pkgs"
    and kv: "(k, v) = fallback_service w (installed_services w pf pe)"
    by (auto simp: resolve_services_def)
  from kv have "v = snd (fallback_service w (installed_services w pf pe))"
    by (metis snd_conv)
  then have "processes v = processes (snd pe) \<and> process_name v = process_name (snd pe)"
    by (simp add: installed_services_keeps fallback_service_keeps)
  moreover from inv pe have "traced w S (snd pe)" by (cases pe) auto
  ultimately show "traced w S v" by (simp add: traced_def)
qed

subsection \<open>The plan as a function of the package map\<close>

lemma plan_step_eq:
  "plan_step (p, e) pl =
     \<lparr>restartable = restartable pl @ (if has_service e then [p] else []),
      nonrestartable = nonrestartable pl @ (if has_service e then [] else [p]),
      restartinitcommands = restartinitcommands pl @ map init_command (initscripts e),
      restartservicecommands = restartservicecommands pl @
        (if initscripts e = [] then map service_command (systemdservice e) else [])\<rparr>"
  by (cases "initscripts e = []"; cases "systemdservice e = []")
    (simp_all add: plan_step_def has_service_def init_command_def [abs_def]
      service_command_def [abs_def])

lemma fold_plan_step:
  "fold plan_step pkgs pl =
     \<lparr>restartable = restartable pl @ map fst (filter (\<lambda>(p, e). has_service e) pkgs),
      nonrestartable = nonrestartable pl @ map fst (filter (\<lambda>(p, e). \<not> has_service e) pkgs),
      restartinitcommands = restartinitcommands pl @
        concat (map (\<lambda>(p, e). map init_command (initscripts e)) pkgs),
      restartservicecommands = restartservicecommands pl @
        concat (map (\<lambda>(p, e). if initscripts e = [] then map service_command (systemdservice e)
                               else []) pkgs)\<rparr>"
proof (induction pkgs arbitrary: pl)
  case Nil
  then show ?case by simp
next
  case (Cons pe pkgs)
  obtain p e where pe: "pe = (p, e)" by (cases pe)
  show ?case
    unfolding pe fold_Cons comp_def Cons.IH plan_step_eq
    by simp
qed

lemma build_plan_eq:
  "build_plan pkgs =
     \<lparr>restartable = map fst (filter (\<lambda>(p, e). has_service e) pkgs),
      nonrestartable = map fst (filter (\<lambda>(p, e). \<not> has_service e) pkgs),
      restartinitcommands = concat (map (\<lambda>(p, e). map init_command (initscripts e)) pkgs),
      restartservicecommands =
        concat (map (\<lambda>(p, e). if initscripts e = [] then map service_command (systemdservice e)
                               else []) pkgs)\<rparr>"
  by (simp add: build_plan_def fold_plan_step)

lemma partition_distinct_keys:
  "distinct (map fst pkgs) \<Longrightarrow>
   distinct (map fst (filter (\<lambda>(p, e). P e) pkgs) @ map fst (filter (\<lambda>(p, e). \<not> P e) pkgs))"
proof (induction pkgs)
  case Nil
  then show ?case by simp
next
  case (Cons pe pkgs)
  obtain p e where pe: "pe = (p, e)" by (cases pe)
  from Cons.prems have "p \<notin> fst ` set pkgs" by (simp add: pe)
  then have "p \<notin> fst ` set (filter (\<lambda>(p, e). P e) pkgs)"
    and "p \<notin> fst ` set (filter (\<lambda>(p, e). \<not> P e) pkgs)"
    by auto
  with Cons show ?case by (auto simp: pe)
qed

lemma partition_member:
  "distinct (map fst pkgs) \<Longrightarrow> (p, e) \<in> set pkgs \<Longrightarrow>
   (p \<in> set (map fst (filter (\<lambda>(p, e). P e) pkgs)) \<longleftrightarrow> P e)"
proof -
  assume d: "distinct (map fst pkgs)" and m: "(p, e) \<in> set pkgs"
  have u: "e' = e" if "(p, e') \<in> set pkgs" for e'
    using d m that by (meson eq_key_imp_eq_value)
  show ?thesis
  proof
    assume "p \<in> set (map fst (filter (\<lambda>(p, e). P e) pkgs))"
    then obtain e' where "(p, e') \<in> set pkgs" "P e'" by auto
    with u show "P e" by blast
  next
    assume "P e"
    with m show "p \<in> set (map fst (filter (\<lambda>(p, e). P e) pkgs))" by force
  qed
qed

lemma after_scan_filter:
  "after_scan w pf kernel_restart ignorelist blacklist ex verbose
     (filter (survives blacklist ex) dfs) =
   after_scan w pf kernel_restart ignorelist blacklist ex verbose dfs"
  by (simp add: after_scan_def candidate_packages_def collect_packages_filter)

subsection \<open>The scan of a unit file\<close>

text \<open>
  A unit counts as oneshot exactly when some line has \<open>Type=oneshot\<close> at an index
  greater than 0; a body whose lines carry the directive at their start only is not
  recognised.
\<close>

lemma str_find_prefix: "startswith s sub \<Longrightarrow> str_find s sub = 0"
  by (cases s) (simp_all add: str_find_def startswith_def)

lemma unit_is_oneshot_fold:
  "fold (\<lambda>line is_oneshot. if 0 < str_find line sub then True else is_oneshot) body b
     \<longleftrightarrow> b \<or> (\<exists>line \<in> set body. 0 < str_find line sub)"
  by (induction body arbitrary: b) auto

lemma unit_is_oneshot_iff:
  "unit_is_oneshot body \<longleftrightarrow> (\<exists>line \<in> set body. 0 < str_find line ''Type=oneshot'')"
  unfolding unit_is_oneshot_def by (subst unit_is_oneshot_fold) (rule simp_thms)

lemma directive_at_line_start_missed:
  assumes "\<forall>line \<in> set body. startswith line ''Type=oneshot'' \<or> \<not> contains line ''Type=oneshot''"
  shows "\<not> unit_is_oneshot body"
proof
  assume "unit_is_oneshot body"
  then obtain line where l: "line \<in> set body" "0 < str_find line ''Type=oneshot''"
    unfolding unit_is_oneshot_iff by blast
  from l(2) have "contains line ''Type=oneshot''" unfolding contains_def by linarith
  with assms l(1) have "startswith line ''Type=oneshot''" by blast
  then have "str_find line ''Type=oneshot'' = 0" by (rule str_find_prefix)
  with l(2) show False by linarith
qed

subsection \<open>Runs on the concrete hosts\<close>

lemma platform_of_Debian: "platform_of ''Debian'' = Some debian_platform"
  by (simp add: platform_of_def)

lemma host_screen_family: "grains_os_family host_screen = ''Debian''"
  by (simp add: host_screen_def host_quiet_def host0_def)

lemma host_screen_versions: "kernel_versions host_screen = Inr [''4.9.144-3'']"
  by code_simp

lemma host_screen_kernel_check:
  "kernel_check host_screen (cmd_run host_screen ''uname -a'') [''4.9.144-3''] = Inr False"
  by code_simp

lemma host_screen_scan:
  "deleted_files host_screen = Some [(''screen'', 12, ''/usr/lib/libfoo.so.1'')]"
  by code_simp

lemma host_screen_collect:
  "collect_packages host_screen (effective_ignorelist PyNone) (effective_blacklist PyNone)
     (effective_excludepid PyNone) [(''screen'', 12, ''/usr/lib/libfoo.so.1'')] = []"
  by code_simp

lemma host_screen_default: 
  "restartcheck host_screen PyNone PyNone PyNone False =
     Text ''No packages seem to need to be restarted.''"
  by code_simp

lemma host_screen_custom:
  "restartcheck host_screen (PyList [''vim'']) PyNone PyNone False = Names [''screen'']"
  by code_simp

lemma host_systemd_custom:
  "restartcheck host_systemd (PyList [''vim'']) PyNone PyNone False = Names [''systemd'']"
  by code_simp

lemma host_nginx_scan:
  "deleted_files host_nginx = Some [(''nginx'', 10, ''/usr/lib/libfoo.so.1'')]"
  by code_simp

lemma host_nginx_family: "platform_of (grains_os_family host_nginx) = Some debian_platform"
  by code_simp

lemma host_nginx_packages:
  "candidate_packages host_nginx debian_platform [''screen'', ''systemd''] [] []
     [(''nginx'', 10, ''/usr/lib/libfoo.so.1'')] =
   [(''nginx'',
     \<lparr>initscripts = [''nginx''], systemdservice = [''nginx.service''],
      processes = [program_line 10 ''/usr/sbin/nginx'' ''/usr/lib/libfoo.so.1''],
      process_name = ''nginx''\<rparr>)]"
  by code_simp

lemma host_nginx_plan:
  "restart_plan host_nginx debian_platform [''screen'', ''systemd''] [] []
     [(''nginx'', 10, ''/usr/lib/libfoo.so.1'')] =
   \<lparr>restartable = [''nginx''], nonrestartable = [],
    restartinitcommands = [''service nginx restart''], restartservicecommands = []\<rparr>"
  by code_simp

lemma host_oneshot_scan:
  "deleted_files host_oneshot = Some [(''fstrim'', 11, ''/usr/lib/libfoo.so.1'')]"
  by code_simp

lemma host_oneshot_unit:
  "is_unit_path host_oneshot debian_platform ''/lib/systemd/system/fstrim.service'' \<and>
   fopen_lines host_oneshot ''/lib/systemd/system/fstrim.service'' =
     Some [''[Service]'' @ [newline], ''Type=oneshot'' @ [newline],
           ''ExecStart=/sbin/fstrim -av'' @ [newline]] \<and>
   str_find (''Type=oneshot'' @ [newline]) ''Type=oneshot'' = 0 \<and>
   \<not> unit_is_oneshot [''[Service]'' @ [newline], ''Type=oneshot'' @ [newline],
           ''ExecStart=/sbin/fstrim -av'' @ [newline]]"
  by code_simp

lemma host_oneshot_packages:
  "candidate_packages host_oneshot debian_platform [''screen'', ''systemd''] [] []
     [(''fstrim'', 11, ''/usr/lib/libfoo.so.1'')] =
   [(''util-linux'',
     \<lparr>initscripts = [], systemdservice = [''fstrim.service''],
      processes = [program_line 11 ''/sbin/fstrim'' ''/usr/lib/libfoo.so.1''],
      process_name = ''fstrim''\<rparr>)]"
  by code_simp

lemma host_oneshot_plan:
  "restart_plan host_oneshot debian_platform [''screen'', ''systemd''] [] []
     [(''fstrim'', 11, ''/usr/lib/libfoo.so.1'')] =
   \<lparr>restartable = [''util-linux''], nonrestartable = [],
    restartinitcommands = [], restartservicecommands = [''systemctl restart fstrim.service'']\<rparr>"
  by code_simp

lemma host_oneshot_run:
  "restartcheck host_oneshot PyNone PyNone PyNone False = Names [''util-linux'']"
  by code_simp

lemma host_two_filtered:
  "filter (survives (effective_blacklist (PyVal ''/usr/lib/libbar.so.2''))
             (effective_excludepid (PyVal 10)))
     [(''nginx'', 10, ''/usr/lib/libfoo.so.1''), (''nginx'', 13, ''/usr/lib/libbar.so.2''),
      (''nginx'', 13, ''/usr/lib/libfoo.so.1'')] =
   [(''nginx'', 13, ''/usr/lib/libfoo.so.1'')]"
  by code_simp

lemma host_two_scan:
  "deleted_files host_two =
     Some [(''nginx'', 10, ''/usr/lib/libfoo.so.1''), (''nginx'', 13, ''/usr/lib/libbar.so.2''),
           (''nginx'', 13, ''/usr/lib/libfoo.so.1'')]"
  by code_simp

lemma host_two_packages:
  "candidate_packages host_two debian_platform (effective_ignorelist PyNone)
     (effective_blacklist (PyVal ''/usr/lib/libbar.so.2'')) (effective_excludepid (PyVal 10))
     [(''nginx'', 10, ''/usr/lib/libfoo.so.1''), (''nginx'', 13, ''/usr/lib/libbar.so.2''),
      (''nginx'', 13, ''/usr/lib/libfoo.so.1'')] =
   [(''nginx'',
     \<lparr>initscripts = [''nginx''], systemdservice = [''nginx.service''],
      processes = [program_line 13 ''/usr/sbin/nginx'' ''/usr/lib/libfoo.so.1''],
      process_name = ''nginx''\<rparr>)]"
  by code_simp

lemma host_two_run:
  "restartcheck_with host_two (Some [(''nginx'', 13, ''/usr/lib/libfoo.so.1'')]) PyNone
     (PyVal ''/usr/lib/libbar.so.2'') (PyVal 10) False = Names [''nginx'']"
  by code_simp

lemma host_screen_custom_packages:
  "candidate_packages host_screen debian_platform [''vim''] [] []
     [(''screen'', 12, ''/usr/lib/libfoo.so.1'')] =
   [(''screen'',
     \<lparr>initscripts = [], systemdservice = [],
      processes = [program_line 12 ''/usr/bin/screen'' ''/usr/lib/libfoo.so.1''],
      process_name = ''screen''\<rparr>)]"
  by code_simp

lemma host_screen_custom_plan:
  "restart_plan host_screen debian_platform [''vim''] [] []
     [(''screen'', 12, ''/usr/lib/libfoo.so.1'')] =
   \<lparr>restartable = [], nonrestartable = [''screen''],
    restartinitcommands = [], restartservicecommands = []\<rparr>"
  by code_simp

subsection \<open>The claims about \<open>restartcheck\<close>\<close>

text \<open>
  C2. When the package map is empty after the loop over the deleted files and no
  kernel restart is required, \<open>restartcheck\<close> returns exactly the string
  \<open>No packages seem to need to be restarted.\<close> (on a supported platform, once the
  kernel check and the scan have returned).
\<close>

theorem C2_nothing_to_restart:
  assumes "platform_of (grains_os_family w) = Some pf"
    and "kernel_versions w = Inr versions"
    and "kernel_check w (cmd_run w ''uname -a'') versions = Inr False"
    and "deleted_files w = Some dfs"
    and "collect_packages w (effective_ignorelist ignorelist) (effective_blacklist blacklist)
           (effective_excludepid excludepid) dfs = []"
  shows "restartcheck w ignorelist blacklist excludepid verbose =
           Text ''No packages seem to need to be restarted.''"
  using assms by (simp add: restartcheck_def restartcheck_with_def after_scan_def)

theorem C2_nothing_to_restart_witness:
  "deleted_files host_screen = Some [(''screen'', 12, ''/usr/lib/libfoo.so.1'')] \<and>
   collect_packages host_screen (effective_ignorelist PyNone) (effective_blacklist PyNone)
     (effective_excludepid PyNone) [(''screen'', 12, ''/usr/lib/libfoo.so.1'')] = [] \<and>
   restartcheck host_screen PyNone PyNone PyNone True =
     Text ''No packages seem to need to be restarted.''"
proof -
  have p: "platform_of (grains_os_family host_screen) = Some debian_platform"
    by (simp add: host_screen_family platform_of_Debian)
  show ?thesis
    using C2_nothing_to_restart [OF p host_screen_versions host_screen_kernel_check
        host_screen_scan host_screen_collect, of True]
      host_screen_scan host_screen_collect
    by simp
qed

text \<open>
  C3, evaluated where it fails. The unit file of \<open>fstrim.service\<close> lies in the systemd
  unit directory, is not under \<open>.wants\<close>, and its body has the line \<open>Type=oneshot\<close>. The
  line starts with the directive, \<open>find\<close> returns 0, the test \<open>> 0\<close> is false, and the
  unit is recorded and gets a restart command.
\<close>

theorem C3_oneshot_unit_recorded:
  "deleted_files host_oneshot = Some [(''fstrim'', 11, ''/usr/lib/libfoo.so.1'')] \<and>
   is_unit_path host_oneshot debian_platform ''/lib/systemd/system/fstrim.service'' \<and>
   fopen_lines host_oneshot ''/lib/systemd/system/fstrim.service'' =
     Some [''[Service]'' @ [newline], ''Type=oneshot'' @ [newline],
           ''ExecStart=/sbin/fstrim -av'' @ [newline]] \<and>
   str_find (''Type=oneshot'' @ [newline]) ''Type=oneshot'' = 0 \<and>
   candidate_packages host_oneshot debian_platform [''screen'', ''systemd''] [] []
     [(''fstrim'', 11, ''/usr/lib/libfoo.so.1'')] =
   [(''util-linux'',
     \<lparr>initscripts = [], systemdservice = [''fstrim.service''],
      processes = [program_line 11 ''/sbin/fstrim'' ''/usr/lib/libfoo.so.1''],
      process_name = ''fstrim''\<rparr>)] \<and>
   restartservicecommands
     (restart_plan host_oneshot debian_platform [''screen'', ''systemd''] [] []
        [(''fstrim'', 11, ''/usr/lib/libfoo.so.1'')]) = [''systemctl restart fstrim.service''] \<and>
   restartcheck host_oneshot PyNone PyNone PyNone False = Names [''util-linux'']"
  using host_oneshot_scan host_oneshot_unit host_oneshot_packages host_oneshot_plan
    host_oneshot_run
  by simp

text \<open>
  C5. A record whose pid is in the exclude list or whose path is in the blacklist
  contributes nothing: \<open>restartcheck\<close> returns what it returns when these records are
  removed from the scanner's list, and in the package map from which the plan and the
  report are made, every listed process line and every process name comes from a
  record that is neither excluded nor blacklisted.
\<close>

theorem C5_excluded_records_never_contribute:
  "restartcheck_with w (Some dfs) ignorelist blacklist excludepid verbose =
   restartcheck_with w
     (Some (filter (survives (effective_blacklist blacklist) (effective_excludepid excludepid))
              dfs))
     ignorelist blacklist excludepid verbose \<and>
   (deleted_files w = Some dfs \<longrightarrow>
    restartcheck w ignorelist blacklist excludepid verbose =
    restartcheck_with w
      (Some (filter (survives (effective_blacklist blacklist) (effective_excludepid excludepid))
               dfs))
      ignorelist blacklist excludepid verbose) \<and>
   (\<forall>(package, e) \<in> set (candidate_packages w pf (effective_ignorelist ignorelist)
                            (effective_blacklist blacklist) (effective_excludepid excludepid) dfs).
      traced w {d \<in> set dfs.
                 survives (effective_blacklist blacklist) (effective_excludepid excludepid) d} e)"
proof -
  have 1: "restartcheck_with w (Some dfs) ignorelist blacklist excludepid verbose =
    restartcheck_with w
     (Some (filter (survives (effective_blacklist blacklist) (effective_excludepid excludepid))
              dfs))
     ignorelist blacklist excludepid verbose"
    by (simp add: restartcheck_with_def after_scan_filter split: option.split sum.split)
  have 2: "\<forall>(package, e) \<in> set (candidate_packages w pf (effective_ignorelist ignorelist)
                            (effective_blacklist blacklist) (effective_excludepid excludepid) dfs).
      traced w {d \<in> set dfs.
                 survives (effective_blacklist blacklist) (effective_excludepid excludepid) d} e"
    unfolding candidate_packages_def
    by (rule resolve_services_traced) (rule traced_collect_packages)
  from 1 2 show ?thesis by (simp add: restartcheck_def)
qed

theorem C5_excluded_records_never_contribute_witness:
  "deleted_files host_two =
     Some [(''nginx'', 10, ''/usr/lib/libfoo.so.1''), (''nginx'', 13, ''/usr/lib/libbar.so.2''),
           (''nginx'', 13, ''/usr/lib/libfoo.so.1'')] \<and>
   restartcheck host_two PyNone (PyVal ''/usr/lib/libbar.so.2'') (PyVal 10) False =
     restartcheck_with host_two (Some [(''nginx'', 13, ''/usr/lib/libfoo.so.1'')]) PyNone
       (PyVal ''/usr/lib/libbar.so.2'') (PyVal 10) False \<and>
   restartcheck_with host_two (Some [(''nginx'', 13, ''/usr/lib/libfoo.so.1'')]) PyNone
       (PyVal ''/usr/lib/libbar.so.2'') (PyVal 10) False = Names [''nginx''] \<and>
   traced host_two {(''nginx'', 13, ''/usr/lib/libfoo.so.1'')}
     \<lparr>initscripts = [''nginx''], systemdservice = [''nginx.service''],
      processes = [program_line 13 ''/usr/sbin/nginx'' ''/usr/lib/libfoo.so.1''],
      process_name = ''nginx''\<rparr>"
proof -
  let ?dfs = "[(''nginx'', 10, ''/usr/lib/libfoo.so.1''), (''nginx'', 13, ''/usr/lib/libbar.so.2''),
               (''nginx'', 13::int, ''/usr/lib/libfoo.so.1'')]"
  let ?P = "survives (effective_blacklist (PyVal ''/usr/lib/libbar.so.2''))
              (effective_excludepid (PyVal 10))"
  note c5 = C5_excluded_records_never_contribute
    [of host_two ?dfs PyNone "PyVal ''/usr/lib/libbar.so.2''" "PyVal 10" False debian_platform]
  have "{d \<in> set ?dfs. ?P d} = set (filter ?P ?dfs)"
    by (simp only: set_filter)
  also have "\<dots> = set [(''nginx'', 13, ''/usr/lib/libfoo.so.1'')]"
    by (simp only: host_two_filtered)
  also have "\<dots> = {(''nginx'', 13, ''/usr/lib/libfoo.so.1'')}"
    by (simp only: list.set)
  finally have s: "{d \<in> set ?dfs. ?P d} = {(''nginx'', 13, ''/usr/lib/libfoo.so.1'')}" .
  from c5 [THEN conjunct2, THEN conjunct1, rule_format, OF host_two_scan]
  have 1: "restartcheck host_two PyNone (PyVal ''/usr/lib/libbar.so.2'') (PyVal 10) False =
     restartcheck_with host_two (Some [(''nginx'', 13, ''/usr/lib/libfoo.so.1'')]) PyNone
       (PyVal ''/usr/lib/libbar.so.2'') (PyVal 10) False"
    by (simp only: host_two_filtered)
  from c5 [THEN conjunct2, THEN conjunct2]
  have 2: "traced host_two {(''nginx'', 13, ''/usr/lib/libfoo.so.1'')}
     \<lparr>initscripts = [''nginx''], systemdservice = [''nginx.service''],
      processes = [program_line 13 ''/usr/sbin/nginx'' ''/usr/lib/libfoo.so.1''],
      process_name = ''nginx''\<rparr>"
    unfolding host_two_packages s by (simp only: list.set ball_simps prod.case)
  from host_two_scan 1 host_two_run 2 show ?thesis by (intro conjI)
qed

text \<open>
  C6. In the plan every candidate package is in exactly one of the lists \<open>restartable\<close>
  and \<open>nonrestartable\<close>: the two lists together hold the keys of the package map, each
  once, and a package is in \<open>restartable\<close> exactly when it has an init script or a
  systemd service.
\<close>

theorem C6_bucket_partition:
  "set (restartable (restart_plan w pf ignorelist blacklist ex dfs)) \<union>
   set (nonrestartable (restart_plan w pf ignorelist blacklist ex dfs)) =
     fst ` set (candidate_packages w pf ignorelist blacklist ex dfs) \<and>
   distinct (restartable (restart_plan w pf ignorelist blacklist ex dfs) @
             nonrestartable (restart_plan w pf ignorelist blacklist ex dfs)) \<and>
   (\<forall>(package, e) \<in> set (candidate_packages w pf ignorelist blacklist ex dfs).
      (package \<in> set (restartable (restart_plan w pf ignorelist blacklist ex dfs)) \<longleftrightarrow>
         has_service e) \<and>
      (package \<in> set (nonrestartable (restart_plan w pf ignorelist blacklist ex dfs)) \<longleftrightarrow>
         \<not> has_service e))"
proof -
  define pkgs where "pkgs = candidate_packages w pf ignorelist blacklist ex dfs"
  have d: "distinct (map fst pkgs)"
    by (simp add: pkgs_def candidate_packages_def resolve_services_keys distinct_collect_packages)
  have r: "restartable (restart_plan w pf ignorelist blacklist ex dfs) =
             map fst (filter (\<lambda>(p, e). has_service e) pkgs)"
    and n: "nonrestartable (restart_plan w pf ignorelist blacklist ex dfs) =
             map fst (filter (\<lambda>(p, e). \<not> has_service e) pkgs)"
    by (simp_all add: restart_plan_def pkgs_def build_plan_eq)
  have 1: "set (map fst (filter (\<lambda>(p, e). has_service e) pkgs)) \<union>
           set (map fst (filter (\<lambda>(p, e). \<not> has_service e) pkgs)) = fst ` set pkgs"
    by force
  have 2: "distinct (map fst (filter (\<lambda>(p, e). has_service e) pkgs) @
                     map fst (filter (\<lambda>(p, e). \<not> has_service e) pkgs))"
    using d by (rule partition_distinct_keys)
  have 3: "\<forall>(package, e) \<in> set pkgs.
      (package \<in> set (map fst (filter (\<lambda>(p, e). has_service e) pkgs)) \<longleftrightarrow> has_service e) \<and>
      (package \<in> set (map fst (filter (\<lambda>(p, e). \<not> has_service e) pkgs)) \<longleftrightarrow> \<not> has_service e)"
    using partition_member [OF d, where P = has_service]
      partition_member [OF d, where P = "\<lambda>e. \<not> has_service e"]
    by blast
  from 1 2 3 show ?thesis
    unfolding r n pkgs_def [symmetric] by blast
qed

theorem C6_bucket_partition_witness:
  "restartable (restart_plan host_nginx debian_platform [''screen'', ''systemd''] [] []
     [(''nginx'', 10, ''/usr/lib/libfoo.so.1'')]) = [''nginx''] \<and>
   nonrestartable (restart_plan host_nginx debian_platform [''screen'', ''systemd''] [] []
     [(''nginx'', 10, ''/usr/lib/libfoo.so.1'')]) = [] \<and>
   fst ` set (candidate_packages host_nginx debian_platform [''screen'', ''systemd''] [] []
     [(''nginx'', 10, ''/usr/lib/libfoo.so.1'')]) = {''nginx''} \<and>
   has_service \<lparr>initscripts = [''nginx''], systemdservice = [''nginx.service''],
      processes = [program_line 10 ''/usr/sbin/nginx'' ''/usr/lib/libfoo.so.1''],
      process_name = ''nginx''\<rparr>"
  using C6_bucket_partition [of host_nginx debian_platform "[''screen'', ''systemd'']" "[]" "[]"
      "[(''nginx'', 10, ''/usr/lib/libfoo.so.1'')]"]
  by (simp add: host_nginx_plan host_nginx_packages)

text \<open>
  C7 as stated fails: the package \<open>nginx\<close> has the init script \<open>nginx\<close> and the systemd
  unit \<open>nginx.service\<close>, and the plan holds \<open>service nginx restart\<close> but no command for
  the unit.
\<close>

theorem C7_counterexample:
  "deleted_files host_nginx = Some [(''nginx'', 10, ''/usr/lib/libfoo.so.1'')] \<and>
   candidate_packages host_nginx debian_platform [''screen'', ''systemd''] [] []
     [(''nginx'', 10, ''/usr/lib/libfoo.so.1'')] =
   [(''nginx'',
     \<lparr>initscripts = [''nginx''], systemdservice = [''nginx.service''],
      processes = [program_line 10 ''/usr/sbin/nginx'' ''/usr/lib/libfoo.so.1''],
      process_name = ''nginx''\<rparr>)] \<and>
   restartinitcommands (restart_plan host_nginx debian_platform [''screen'', ''systemd''] [] []
     [(''nginx'', 10, ''/usr/lib/libfoo.so.1'')]) = [''service nginx restart''] \<and>
   restartservicecommands (restart_plan host_nginx debian_platform [''screen'', ''systemd''] [] []
     [(''nginx'', 10, ''/usr/lib/libfoo.so.1'')]) = []"
  using host_nginx_scan host_nginx_packages host_nginx_plan by simp

text \<open>
  C7, amended. The plan holds one command \<open>service <name> restart\<close> per init script of
  every candidate package, and one command \<open>systemctl restart <name>\<close> per systemd unit
  of every candidate package that has no init script; the commands come in the order
  of the packages.
\<close>

theorem C7_restart_commands:
  "restartinitcommands (restart_plan w pf ignorelist blacklist ex dfs) =
     concat (map (\<lambda>(package, e). map init_command (initscripts e))
               (candidate_packages w pf ignorelist blacklist ex dfs)) \<and>
   restartservicecommands (restart_plan w pf ignorelist blacklist ex dfs) =
     concat (map (\<lambda>(package, e).
                    if initscripts e = [] then map service_command (systemdservice e) else [])
               (candidate_packages w pf ignorelist blacklist ex dfs)) \<and>
   init_command s = ''service '' @ s @ '' restart'' \<and>
   service_command s = ''systemctl restart '' @ s"
  by (simp add: restart_plan_def build_plan_eq init_command_def service_command_def)

theorem C7_restart_commands_witness:
  "restartinitcommands (restart_plan host_nginx debian_platform [''screen'', ''systemd''] [] []
     [(''nginx'', 10, ''/usr/lib/libfoo.so.1'')]) = [init_command ''nginx''] \<and>
   restartservicecommands (restart_plan host_oneshot debian_platform [''screen'', ''systemd''] [] []
     [(''fstrim'', 11, ''/usr/lib/libfoo.so.1'')]) = [service_command ''fstrim.service'']"
  using C7_restart_commands [of host_nginx debian_platform "[''screen'', ''systemd'']" "[]" "[]"
      "[(''nginx'', 10, ''/usr/lib/libfoo.so.1'')]" "''nginx''"]
    C7_restart_commands [of host_oneshot debian_platform "[''screen'', ''systemd'']" "[]" "[]"
      "[(''fstrim'', 11, ''/usr/lib/libfoo.so.1'')]" "''fstrim.service''"]
  by (simp add: host_nginx_packages host_oneshot_packages)

text \<open>
  C10. Without an ignorelist, or with an empty one, the entries \<open>screen\<close> and \<open>systemd\<close>
  are the ignore list. A non-empty ignorelist is used as it is, with no default added;
  no package named in the list in force is a candidate; and there are hosts on which
  the package \<open>screen\<close>, or the package \<open>systemd\<close>, is then returned.
\<close>

theorem C10_ignorelist_replaces_defaults:
  "effective_ignorelist PyNone = [''screen'', ''systemd''] \<and>
   effective_ignorelist (PyVal []) = [''screen'', ''systemd''] \<and>
   effective_ignorelist (PyList []) = [''screen'', ''systemd''] \<and>
   (s \<noteq> [] \<longrightarrow> effective_ignorelist (PyVal s) = [s]) \<and>
   (l \<noteq> [] \<longrightarrow> effective_ignorelist (PyList l) = l) \<and>
   (\<forall>k \<in> fst ` set (candidate_packages w pf (effective_ignorelist ignorelist) blacklist ex dfs).
      k \<notin> set (effective_ignorelist ignorelist)) \<and>
   (\<exists>h. restartcheck h PyNone PyNone PyNone False =
           Text ''No packages seem to need to be restarted.'' \<and>
        restartcheck h (PyList [''vim'']) PyNone PyNone False = Names [''screen'']) \<and>
   (\<exists>h. restartcheck h (PyList [''vim'']) PyNone PyNone False = Names [''systemd''])"
proof -
  have "\<forall>k \<in> fst ` set (candidate_packages w pf (effective_ignorelist ignorelist) blacklist ex dfs).
      k \<notin> set (effective_ignorelist ignorelist)"
  proof
    fix k
    assume "k \<in> fst ` set (candidate_packages w pf (effective_ignorelist ignorelist) blacklist ex dfs)"
    then have "k \<in> set (map fst (resolve_services w pf
                 (collect_packages w (effective_ignorelist ignorelist) blacklist ex dfs)))"
      by (simp add: candidate_packages_def)
    then have "k \<in> fst ` set (collect_packages w (effective_ignorelist ignorelist) blacklist ex dfs)"
      by (simp add: resolve_services_keys)
    then show "k \<notin> set (effective_ignorelist ignorelist)"
      by (rule collect_packages_not_ignored)
  qed
  moreover have "\<exists>h. restartcheck h PyNone PyNone PyNone False =
           Text ''No packages seem to need to be restarted.'' \<and>
        restartcheck h (PyList [''vim'']) PyNone PyNone False = Names [''screen'']"
    using host_screen_default host_screen_custom by blast
  moreover have "\<exists>h. restartcheck h (PyList [''vim'']) PyNone PyNone False = Names [''systemd'']"
    using host_systemd_custom by blast
  ultimately show ?thesis
    by (simp add: effective_ignorelist_def normalize_def str_truthy_def)
qed

theorem C10_ignorelist_replaces_defaults_witness:
  "effective_ignorelist (PyVal ''vim'') = [''vim''] \<and>
   effective_ignorelist (PyList [''vim'', ''tmux'']) = [''vim'', ''tmux''] \<and>
   fst ` set (candidate_packages host_screen debian_platform (effective_ignorelist (PyVal ''vim''))
                [] [] [(''screen'', 12, ''/usr/lib/libfoo.so.1'')]) = {''screen''} \<and>
   ''screen'' \<notin> set (effective_ignorelist (PyVal ''vim''))"
proof -
  have e: "effective_ignorelist (PyVal ''vim'') = [''vim'']"
    by (simp add: effective_ignorelist_def normalize_def str_truthy_def)
  show ?thesis
    using C10_ignorelist_replaces_defaults [of "''vim''" "[''vim'', ''tmux'']" host_screen
        debian_platform "PyVal ''vim''" "[]" "[]" "[(''screen'', 12, ''/usr/lib/libfoo.so.1'')]"]
    by (simp add: e host_screen_custom_packages)
qed

end
